theory Spec2Isabelle
  imports Complex_Main
begin

section \<open>Python values used by the plugin\<close>

text \<open>
  Exceptions are values.  \<open>ExternalError\<close> stands for any exception raised inside a
  collaborator that is not part of this repository (a background-model component, the
  slicing and subtraction helpers of the data library).
\<close>

datatype error =
    AssertionError
  | ValueError
  | IndexError
  | KeyError
  | AttributeError
  | TypeError
  | ExternalError

text \<open>
  A Python float, as far as comparison sees it: a finite value (read as the real number it
  denotes, so \<open>0.0\<close> and \<open>-0.0\<close> coincide, as they do under Python's \<open>==\<close>), the two
  infinities, and NaN.  Every ordering comparison with NaN is false.
\<close>

datatype pyfloat = Finite real | PosInf | NegInf | NaN

fun float_lt :: "pyfloat \<Rightarrow> pyfloat \<Rightarrow> bool" where
  "float_lt NaN _ = False"
| "float_lt _ NaN = False"
| "float_lt _ NegInf = False"
| "float_lt NegInf _ = True"
| "float_lt PosInf _ = False"
| "float_lt (Finite x) PosInf = True"
| "float_lt (Finite x) (Finite y) = (x < y)"

fun float_le :: "pyfloat \<Rightarrow> pyfloat \<Rightarrow> bool" where
  "float_le NaN _ = False"
| "float_le _ NaN = False"
| "float_le NegInf _ = True"
| "float_le _ NegInf = False"
| "float_le _ PosInf = True"
| "float_le PosInf _ = False"
| "float_le (Finite x) (Finite y) = (x \<le> y)"

text \<open>
  The builtins \<open>min\<close> and \<open>max\<close> over a sequence: the first item is the candidate, and a
  later item replaces it when it compares strictly smaller (\<open>min\<close>) or strictly larger
  (\<open>max\<close>).  On an empty sequence \<open>min\<close> raises \<open>ValueError\<close>.
\<close>

fun py_min_from :: "pyfloat \<Rightarrow> pyfloat list \<Rightarrow> pyfloat" where
  "py_min_from cur [] = cur"
| "py_min_from cur (x # xs) = py_min_from (if float_lt x cur then x else cur) xs"

fun py_max_from :: "pyfloat \<Rightarrow> pyfloat list \<Rightarrow> pyfloat" where
  "py_max_from cur [] = cur"
| "py_max_from cur (x # xs) = py_max_from (if float_lt cur x then x else cur) xs"

definition py_min :: "pyfloat list \<Rightarrow> error + pyfloat" where
  "py_min xs = (case xs of [] \<Rightarrow> Inl ValueError | x # rest \<Rightarrow> Inr (py_min_from x rest))"

type_synonym interval = "pyfloat \<times> pyfloat"

section \<open>BackgroundSubtraction.normalized_interval\<close>

text \<open>\<^verbatim>\<open>return min(interval), max(interval)\<close> on a two-element tuple.\<close>

fun normalized_interval :: "interval \<Rightarrow> interval" where
  "normalized_interval (a, b) = (py_min_from a [b], py_max_from a [b])"

section \<open>Host data read by the computation handlers\<close>

text \<open>
  The data library (\<open>nion.data\<close>) and the host facade are not part of this repository.
  Their objects are records of the attributes the plugin reads; what the plugin calls on
  them is a parameter of the model (record \<open>env\<close> below).
\<close>

record calibration =
  offset :: real
  scale :: real
  units :: string

record ndarray =
  shape :: "nat list"
  elems :: "pyfloat list"

text \<open>\<^verbatim>\<open>numpy.zeros(shape)\<close> and \<^verbatim>\<open>numpy.zeros_like(a)\<close> (element type left out).\<close>

definition zeros :: "nat list \<Rightarrow> ndarray" where
  "zeros sh = \<lparr>shape = sh, elems = replicate (prod_list sh) (Finite 0)\<rparr>"

definition zeros_like :: "ndarray \<Rightarrow> ndarray" where
  "zeros_like a = zeros (shape a)"

record xdata =
  data :: ndarray
  intensity_calibration :: calibration
  dimensional_calibrations :: "calibration list"
  is_datum_1d :: bool
  is_navigable :: bool
  datum_dimension_count :: nat
  datum_dimensional_calibrations :: "calibration list"
  navigation_dimension_shape :: "nat list"
  navigation_dimensional_calibrations :: "calibration list"

text \<open>\<open>Facade.DataItem\<close>: \<open>item_xdata\<close> is its \<open>xdata\<close> attribute, \<open>None\<close> when it has no data.\<close>

record data_item =
  uuid :: nat
  item_xdata :: "xdata option"

text \<open>\<open>Facade.Graphic\<close>; a graphic that is not an interval has no \<open>interval\<close> attribute.\<close>

record graphic =
  graphic_type :: string
  graphic_id :: "string option"
  label :: "string option"
  interval :: "interval option"

text \<open>A data structure; \<open>source\<close> is the data item it is attached to, if any.\<close>

record data_structure =
  structure_type :: string
  source :: "data_item option"

text \<open>
  A background-model component of the registry.  Its three algorithms live outside this
  repository: each is a function of the keyword arguments the plugin passes, returning the
  result dictionary, or \<open>None\<close> when it raises.
\<close>

record component =
  background_model_id :: string
  title :: string
  package_title :: string
  fit_background :: "xdata \<Rightarrow> interval list \<Rightarrow> interval \<Rightarrow> (string \<rightharpoonup> xdata) option"
  subtract_background :: "xdata \<Rightarrow> interval list \<Rightarrow> (string \<rightharpoonup> xdata) option"
  integrate_signal ::
    "xdata \<Rightarrow> xdata option \<Rightarrow> interval list \<Rightarrow> interval \<Rightarrow> (string \<rightharpoonup> xdata) option"

text \<open>
  What the plugin calls outside the repository:
  \<^item> \<open>gettext\<close>: the translation function bound to \<open>_\<close>;
  \<^item> \<open>registry\<close>: the global component registry, each component with the set of component
    types it was registered under.  The host keeps the components of a type in a set; the
    list gives them in whatever order the loop of a handler happens to meet them, and no
    property below depends on that order;
  \<^item> \<open>BackgroundModel.get_calibrated_interval_slice\<close> and
    \<open>Core.calibrated_subtract_spectrum\<close> (\<open>None\<close> when they raise);
  \<^item> \<open>DataAndMetadata.new_data_and_metadata(data, intensity_calibration=...,
    dimensional_calibrations=...)\<close>, an omitted keyword being \<open>None\<close>.
\<close>

record env =
  gettext :: "string \<Rightarrow> string"
  registry :: "(component \<times> string set) list"
  get_calibrated_interval_slice :: "xdata \<Rightarrow> interval \<Rightarrow> xdata option"
  calibrated_subtract_spectrum :: "xdata \<Rightarrow> xdata \<Rightarrow> xdata option"
  new_data_and_metadata ::
    "ndarray \<Rightarrow> calibration option \<Rightarrow> calibration list option \<Rightarrow> xdata"

text \<open>
  Modelled from the spec: \<open>Registry.get_components_by_type\<close>, the lookup of the
  capability registry by component type.
\<close>

definition get_components_by_type :: "env \<Rightarrow> string \<Rightarrow> component list" where
  "get_components_by_type e ty = map fst (filter (\<lambda>(c, tys). ty \<in> tys) (registry e))"

text \<open>
  Modelled from the spec: the \<open>Facade.Computation\<close> a handler holds.  Its host-owned
  outputs are the referenced xdata by output name; \<open>set_calls\<close> records every call of
  \<open>set_referenced_xdata\<close> in order.
\<close>

record api_computation =
  referenced_xdata :: "string \<rightharpoonup> xdata"
  set_calls :: "(string \<times> xdata) list"

definition set_referenced_xdata :: "api_computation \<Rightarrow> string \<Rightarrow> xdata \<Rightarrow> api_computation" where
  "set_referenced_xdata c name x =
     c\<lparr>referenced_xdata := (referenced_xdata c)(name \<mapsto> x), set_calls := set_calls c @ [(name, x)]\<rparr>"

section \<open>The computation handlers\<close>

text \<open>
  The loop that turns the interval graphics into fit intervals:
  \<^verbatim>\<open>for g in fit_interval_graphics: fit_intervals.append(normalized_interval(g.interval))\<close>
\<close>

fun collect_fit_intervals :: "graphic list \<Rightarrow> error + interval list" where
  "collect_fit_intervals [] = Inr []"
| "collect_fit_intervals (g # gs) =
     (case interval g of
        None \<Rightarrow> Inl AttributeError
      | Some iv \<Rightarrow>
          (case collect_fit_intervals gs of
             Inl e \<Rightarrow> Inl e
           | Inr ivs \<Rightarrow> Inr (normalized_interval iv # ivs)))"

text \<open>
  The three assertions on an xdata that must be a spectrum (\<open>navigable = False\<close>) or a
  spectrum image (\<open>navigable = True\<close>, which adds \<^verbatim>\<open>assert xdata.is_navigable\<close> in third
  place).  Indexing an empty calibration list raises \<open>IndexError\<close>.
\<close>

definition assert_spectrum :: "bool \<Rightarrow> xdata option \<Rightarrow> error + xdata" where
  "assert_spectrum navigable xo =
     (case xo of
        None \<Rightarrow> Inl AssertionError
      | Some x \<Rightarrow>
          if \<not> is_datum_1d x then Inl AssertionError
          else if navigable \<and> \<not> is_navigable x then Inl AssertionError
          else (case datum_dimensional_calibrations x of
                  [] \<Rightarrow> Inl IndexError
                | c # _ \<Rightarrow> if units c = ''eV'' then Inr x else Inl AssertionError))"

subsection \<open>EELSFitBackground\<close>

text \<open>
  The handler object: \<open>self.computation\<close> and the two private buffers
  \<open>self.__background_xdata\<close> and \<open>self.__subtracted_xdata\<close>, which \<open>__init__\<close> sets to
  \<open>None\<close>.
\<close>

record fit_handler =
  fit_computation :: api_computation
  background_xdata :: "xdata option"
  fit_subtracted_xdata :: "xdata option"

definition fit_init :: "api_computation \<Rightarrow> fit_handler" where
  "fit_init c = \<lparr>fit_computation = c, background_xdata = None, fit_subtracted_xdata = None\<rparr>"

text \<open>
  The loop over the registry.  It returns the components whose \<open>fit_background\<close> it
  called, in order, and either the exception that ended it or the final values of the
  local variables \<open>background_xdata\<close> and \<open>subtracted_xdata\<close>.
\<close>

fun fit_loop ::
  "env \<Rightarrow> string \<Rightarrow> xdata \<Rightarrow> interval list \<Rightarrow> interval \<Rightarrow> component list \<Rightarrow>
   xdata option \<times> xdata option \<Rightarrow> component list \<times> (error + xdata option \<times> xdata option)" where
  "fit_loop e mid sx fis si [] acc = ([], Inr acc)"
| "fit_loop e mid sx fis si (c # cs) acc =
     (if mid = background_model_id c then
        (case fit_background c sx fis si of
           None \<Rightarrow> ([c], Inl ExternalError)
         | Some fit_result \<Rightarrow>
             (case fit_result ''background_model'' of
                None \<Rightarrow> ([c], Inl KeyError)
              | Some bg \<Rightarrow>
                  (case (case fit_result ''subtracted_spectrum'' of
                           Some s \<Rightarrow> Some s
                         | None \<Rightarrow> calibrated_subtract_spectrum e sx bg) of
                     None \<Rightarrow> ([c], Inl ExternalError)
                   | Some sub \<Rightarrow>
                       (case fit_loop e mid sx fis si cs (Some bg, Some sub) of
                          (invoked, r) \<Rightarrow> (c # invoked, r)))))
      else fit_loop e mid sx fis si cs acc)"

text \<open>Everything \<open>execute\<close> does before the loop: the assertions, the intervals, the slice.\<close>

definition fit_prepare ::
  "env \<Rightarrow> data_item \<Rightarrow> graphic list \<Rightarrow> error + xdata \<times> interval list \<times> interval \<times> xdata" where
  "fit_prepare e eels_spectrum_data_item fit_interval_graphics =
     (case assert_spectrum False (item_xdata eels_spectrum_data_item) of
        Inl err \<Rightarrow> Inl err
      | Inr spectrum_xdata \<Rightarrow>
          (case collect_fit_intervals fit_interval_graphics of
             Inl err \<Rightarrow> Inl err
           | Inr fit_intervals \<Rightarrow>
               (case py_min (map fst fit_intervals) of
                  Inl err \<Rightarrow> Inl err
                | Inr fit_minimum \<Rightarrow>
                    (case get_calibrated_interval_slice e spectrum_xdata (fit_minimum, Finite 1) of
                       None \<Rightarrow> Inl ExternalError
                     | Some signal_xdata \<Rightarrow>
                         Inr (spectrum_xdata, fit_intervals, (fit_minimum, Finite 1), signal_xdata)))))"

text \<open>
  \<open>execute\<close> returns the components it invoked and either the exception raised (the
  handler is then as it was: nothing is assigned to \<open>self\<close> before the last two
  statements) or the handler with both buffers assigned.
\<close>

definition fit_execute ::
  "env \<Rightarrow> fit_handler \<Rightarrow> data_item \<Rightarrow> data_structure \<Rightarrow> graphic list \<Rightarrow>
   component list \<times> (error + fit_handler)" where
  "fit_execute e self eels_spectrum_data_item background_model fit_interval_graphics =
     (case fit_prepare e eels_spectrum_data_item fit_interval_graphics of
        Inl err \<Rightarrow> ([], Inl err)
      | Inr (spectrum_xdata, fit_intervals, signal_interval, signal_xdata) \<Rightarrow>
          (case fit_loop e (structure_type background_model) spectrum_xdata fit_intervals
                  signal_interval (get_components_by_type e ''background-model'') (None, None) of
             (invoked, Inl err) \<Rightarrow> (invoked, Inl err)
           | (invoked, Inr (bg, sub)) \<Rightarrow>
               (invoked,
                Inr (self\<lparr>
                  background_xdata := Some (case bg of
                      Some b \<Rightarrow> b
                    | None \<Rightarrow> new_data_and_metadata e (zeros_like (data signal_xdata))
                                (Some (intensity_calibration signal_xdata))
                                (Some (dimensional_calibrations signal_xdata))),
                  fit_subtracted_xdata := Some (case sub of
                      Some s \<Rightarrow> s
                    | None \<Rightarrow> new_data_and_metadata e (data signal_xdata)
                                (Some (intensity_calibration signal_xdata))
                                (Some (dimensional_calibrations signal_xdata)))\<rparr>))))"

definition fit_commit :: "fit_handler \<Rightarrow> error + fit_handler" where
  "fit_commit self =
     (case background_xdata self of
        None \<Rightarrow> Inl AssertionError
      | Some bg \<Rightarrow>
          (case fit_subtracted_xdata self of
             None \<Rightarrow> Inl AssertionError
           | Some sub \<Rightarrow>
               Inr (self\<lparr>fit_computation :=
                      set_referenced_xdata
                        (set_referenced_xdata (fit_computation self) ''background'' bg)
                        ''subtracted'' sub\<rparr>)))"

subsection \<open>EELSSubtractBackground\<close>

text \<open>
  \<open>__init__\<close> stores the computation only; the buffer attribute exists once \<open>execute\<close>
  has assigned it (\<open>None\<close> here: not assigned yet, and reading it raises
  \<open>AttributeError\<close>).
\<close>

record subtract_handler =
  subtract_computation :: api_computation
  subtracted_xdata :: "xdata option"

definition subtract_init :: "api_computation \<Rightarrow> subtract_handler" where
  "subtract_init c = \<lparr>subtract_computation = c, subtracted_xdata = None\<rparr>"

fun subtract_loop ::
  "string \<Rightarrow> xdata \<Rightarrow> interval list \<Rightarrow> component list \<Rightarrow> xdata option \<Rightarrow>
   component list \<times> (error + xdata option)" where
  "subtract_loop mid sx fis [] acc = ([], Inr acc)"
| "subtract_loop mid sx fis (c # cs) acc =
     (if mid = background_model_id c then
        (case subtract_background c sx fis of
           None \<Rightarrow> ([c], Inl ExternalError)
         | Some integrate_result \<Rightarrow>
             (case integrate_result ''subtracted'' of
                None \<Rightarrow> ([c], Inl KeyError)
              | Some s \<Rightarrow>
                  (case subtract_loop mid sx fis cs (Some s) of
                     (invoked, r) \<Rightarrow> (c # invoked, r))))
      else subtract_loop mid sx fis cs acc)"

text \<open>The fallback of both spectrum-image handlers when the loop assigned nothing.\<close>

definition navigation_zeros :: "env \<Rightarrow> xdata \<Rightarrow> xdata" where
  "navigation_zeros e spectrum_image_xdata =
     new_data_and_metadata e (zeros (navigation_dimension_shape spectrum_image_xdata)) None
       (Some (navigation_dimensional_calibrations spectrum_image_xdata))"

definition subtract_execute ::
  "env \<Rightarrow> subtract_handler \<Rightarrow> data_item \<Rightarrow> data_structure \<Rightarrow> graphic list \<Rightarrow>
   component list \<times> (error + subtract_handler)" where
  "subtract_execute e self spectrum_image_data_item background_model fit_interval_graphics =
     (case assert_spectrum True (item_xdata spectrum_image_data_item) of
        Inl err \<Rightarrow> ([], Inl err)
      | Inr spectrum_image_xdata \<Rightarrow>
          (case collect_fit_intervals fit_interval_graphics of
             Inl err \<Rightarrow> ([], Inl err)
           | Inr fit_intervals \<Rightarrow>
               (case subtract_loop (structure_type background_model) spectrum_image_xdata
                       fit_intervals (get_components_by_type e ''background-model'') None of
                  (invoked, Inl err) \<Rightarrow> (invoked, Inl err)
                | (invoked, Inr sub) \<Rightarrow>
                    (invoked,
                     Inr (self\<lparr>subtracted_xdata := Some (case sub of
                         Some s \<Rightarrow> s
                       | None \<Rightarrow> navigation_zeros e spectrum_image_xdata)\<rparr>)))))"

definition subtract_commit :: "subtract_handler \<Rightarrow> error + subtract_handler" where
  "subtract_commit self =
     (case subtracted_xdata self of
        None \<Rightarrow> Inl AttributeError
      | Some s \<Rightarrow>
          Inr (self\<lparr>subtract_computation :=
                 set_referenced_xdata (subtract_computation self) ''subtracted'' s\<rparr>))"

subsection \<open>EELSMapBackgroundSubtractedSignal\<close>

text \<open>The handler object, with the buffer \<open>self.__mapped_xdata\<close> as in the previous class.\<close>

record map_handler =
  map_computation :: api_computation
  mapped_xdata :: "xdata option"

definition map_init :: "api_computation \<Rightarrow> map_handler" where
  "map_init c = \<lparr>map_computation = c, mapped_xdata = None\<rparr>"

text \<open>
  The keyword arguments of \<open>execute\<close>, as the host passes the declared inputs;
  \<open>eels_spectrum_data_item\<close> is read with \<open>kwargs.get\<close> and may be missing or \<open>None\<close>.
\<close>

record map_kwargs =
  kw_spectrum_image_data_item :: data_item
  kw_background_model :: data_structure
  kw_fit_interval_graphics :: "graphic list"
  kw_signal_interval_graphic :: graphic
  kw_eels_spectrum_data_item :: "data_item option"

fun map_loop ::
  "string \<Rightarrow> xdata \<Rightarrow> xdata option \<Rightarrow> interval list \<Rightarrow> interval \<Rightarrow> component list \<Rightarrow>
   xdata option \<Rightarrow> component list \<times> (error + xdata option)" where
  "map_loop mid sx ex fis si [] acc = ([], Inr acc)"
| "map_loop mid sx ex fis si (c # cs) acc =
     (if mid = background_model_id c then
        (case integrate_signal c sx ex fis si of
           None \<Rightarrow> ([c], Inl ExternalError)
         | Some integrate_result \<Rightarrow>
             (case integrate_result ''integrated'' of
                None \<Rightarrow> ([c], Inl KeyError)
              | Some m \<Rightarrow>
                  (case map_loop mid sx ex fis si cs (Some m) of
                     (invoked, r) \<Rightarrow> (c # invoked, r))))
      else map_loop mid sx ex fis si cs acc)"

text \<open>The statements of \<open>execute\<close> before the loop.\<close>

definition map_prepare ::
  "map_kwargs \<Rightarrow> error + xdata \<times> xdata option \<times> interval list \<times> interval" where
  "map_prepare kwargs =
     (case assert_spectrum True (item_xdata (kw_spectrum_image_data_item kwargs)) of
        Inl err \<Rightarrow> Inl err
      | Inr spectrum_image_xdata \<Rightarrow>
          (case (case kw_eels_spectrum_data_item kwargs of
                   None \<Rightarrow> Inr None
                 | Some eels_spectrum_data_item \<Rightarrow>
                     (case assert_spectrum False (item_xdata eels_spectrum_data_item) of
                        Inl err \<Rightarrow> Inl err
                      | Inr x \<Rightarrow> Inr (Some x))) of
             Inl err \<Rightarrow> Inl err
           | Inr eels_spectrum_xdata \<Rightarrow>
               (case collect_fit_intervals (kw_fit_interval_graphics kwargs) of
                  Inl err \<Rightarrow> Inl err
                | Inr fit_intervals \<Rightarrow>
                    (case interval (kw_signal_interval_graphic kwargs) of
                       None \<Rightarrow> Inl AttributeError
                     | Some iv \<Rightarrow>
                         Inr (spectrum_image_xdata, eels_spectrum_xdata, fit_intervals,
                              normalized_interval iv)))))"

definition map_execute ::
  "env \<Rightarrow> map_handler \<Rightarrow> map_kwargs \<Rightarrow> component list \<times> (error + map_handler)" where
  "map_execute e self kwargs =
     (case map_prepare kwargs of
        Inl err \<Rightarrow> ([], Inl err)
      | Inr (spectrum_image_xdata, eels_spectrum_xdata, fit_intervals, signal_interval) \<Rightarrow>
          (case map_loop (structure_type (kw_background_model kwargs)) spectrum_image_xdata
                  eels_spectrum_xdata fit_intervals signal_interval
                  (get_components_by_type e ''background-model'') None of
             (invoked, Inl err) \<Rightarrow> (invoked, Inl err)
           | (invoked, Inr m) \<Rightarrow>
               (invoked,
                Inr (self\<lparr>mapped_xdata := Some (case m of
                    Some x \<Rightarrow> x
                  | None \<Rightarrow> navigation_zeros e spectrum_image_xdata)\<rparr>))))"

definition map_commit :: "map_handler \<Rightarrow> error + map_handler" where
  "map_commit self =
     (case mapped_xdata self of
        None \<Rightarrow> Inl AttributeError
      | Some m \<Rightarrow>
          Inr (self\<lparr>map_computation := set_referenced_xdata (map_computation self) ''map'' m\<rparr>))"

text \<open>
  The handler object after a call of \<open>execute\<close>: the returned one, or the old one when
  \<open>execute\<close> raised.
\<close>

definition after_call :: "'h \<Rightarrow> error + 'h \<Rightarrow> 'h" where
  "after_call self r = (case r of Inl _ \<Rightarrow> self | Inr self' \<Rightarrow> self')"

text \<open>
  The condition the assertions of the handlers put on an xdata, in the words of the
  specification: one-dimensional datum data whose datum dimension is calibrated in eV.
\<close>

definition is_eV_spectrum :: "xdata \<Rightarrow> bool" where
  "is_eV_spectrum x =
     (is_datum_1d x
      \<and> (case datum_dimensional_calibrations x of [] \<Rightarrow> False | c # _ \<Rightarrow> units c = ''eV''))"

text \<open>
  The selection rule in the words of the specification: the components registered under
  the type \<open>background-model\<close> whose \<open>background_model_id\<close> equals the
  \<open>structure_type\<close> of the data structure passed as \<open>background_model\<close>.
\<close>

definition model_matches :: "string \<Rightarrow> component \<Rightarrow> bool" where
  "model_matches mid c = (mid = background_model_id c)"

definition matching_components :: "env \<Rightarrow> data_structure \<Rightarrow> component list" where
  "matching_components e bm =
     filter (model_matches (structure_type bm)) (get_components_by_type e ''background-model'')"

section \<open>Module level of BackgroundSubtraction.py\<close>

datatype handler_class = EELSFitBackground | EELSSubtractBackground | EELSMapBackgroundSubtractedSignal

text \<open>The methods each class defines in its body.\<close>

fun class_methods :: "handler_class \<Rightarrow> string list" where
  "class_methods EELSFitBackground = [''__init__'', ''execute'', ''commit'']"
| "class_methods EELSSubtractBackground = [''__init__'', ''execute'', ''commit'']"
| "class_methods EELSMapBackgroundSubtractedSignal = [''__init__'', ''execute'', ''commit'']"

text \<open>
  An entity type of the host's schema: the entity id and the parent entity; version and
  fields are always \<open>None\<close> and empty here.
\<close>

datatype entity = Entity string "entity option"

datatype listener = ComponentRegisteredListener

text \<open>
  Modelled from the spec: the registries of the host the module writes to when it is
  loaded, each as the list of registrations in the order they were made:
  \<open>Symbolic.register_computation_type(id, class)\<close>, the entity ids the schema knows
  (\<open>Schema.entity\<close> enters the id of every entity type it creates),
  \<open>DataStructure.register_entity(entity, entity_name, entity_package_name)\<close> and
  \<open>Registry.listen_component_registered_event(listener)\<close>.
\<close>

record plugin_host =
  computation_types :: "(string \<times> handler_class) list"
  schema_entity_ids :: "string list"
  registered_entities :: "(entity \<times> string \<times> string) list"
  component_listeners :: "listener list"

definition register_computation_type :: "string \<Rightarrow> handler_class \<Rightarrow> plugin_host \<Rightarrow> plugin_host" where
  "register_computation_type pid cls h = h\<lparr>computation_types := computation_types h @ [(pid, cls)]\<rparr>"

text \<open>The class the host finds under an identifier: the latest registration wins.\<close>

definition computation_type :: "plugin_host \<Rightarrow> string \<Rightarrow> handler_class option" where
  "computation_type h pid = map_of (rev (computation_types h)) pid"

text \<open>
  Modelled from the spec: \<^verbatim>\<open>Schema.entity(entity_id, base, None, {})\<close>.  The host creates
  the entity type and enters it in the schema under its id; it asserts that the id is not
  in the schema yet, so a second entity with an id already used raises \<open>AssertionError\<close>
  and nothing is created.
\<close>

definition schema_entity ::
  "string \<Rightarrow> entity option \<Rightarrow> plugin_host \<Rightarrow> error + entity \<times> plugin_host" where
  "schema_entity entity_id base h =
     (if entity_id \<in> set (schema_entity_ids h) then Inl AssertionError
      else Inr (Entity entity_id base,
                h\<lparr>schema_entity_ids := schema_entity_ids h @ [entity_id]\<rparr>))"

text \<open>
  The value of the module variable \<open>BackgroundModelEntity\<close>, once the statement that
  creates it has run.
\<close>

definition BackgroundModelEntity :: entity where
  "BackgroundModelEntity = Entity ''background_model'' None"

definition register_entity :: "entity \<Rightarrow> string \<Rightarrow> string \<Rightarrow> plugin_host \<Rightarrow> plugin_host" where
  "register_entity ent entity_name entity_package_name h =
     h\<lparr>registered_entities := registered_entities h @ [(ent, entity_name, entity_package_name)]\<rparr>"

text \<open>
  \<open>component_registered\<close> returns the host after the call, or the exception raised; when
  \<open>Schema.entity\<close> raises, nothing has been written yet.
\<close>

definition component_registered ::
  "component \<Rightarrow> string set \<Rightarrow> plugin_host \<Rightarrow> error + plugin_host" where
  "component_registered c component_types h =
     (if ''background-model'' \<in> component_types then
        (case schema_entity (background_model_id c) (Some BackgroundModelEntity) h of
           Inl err \<Rightarrow> Inl err
         | Inr (background_model_entity, h1) \<Rightarrow>
             Inr (register_entity background_model_entity (title c) (package_title c) h1))
      else Inr h)"

text \<open>
  The statements the module runs when it is imported: the three registrations, the
  creation of \<open>BackgroundModelEntity\<close>, the listener, and \<open>component_registered\<close> for every
  component already in the registry.  The result is the host as the import leaves it and
  the exception that ended the import, if any: what was registered before an exception
  stays registered.
\<close>

definition register_computation_types :: "plugin_host \<Rightarrow> plugin_host" where
  "register_computation_types h =
     register_computation_type ''eels.subtract_background'' EELSSubtractBackground
       (register_computation_type ''eels.mapping3'' EELSMapBackgroundSubtractedSignal
         (register_computation_type ''eels.background_subtraction3'' EELSFitBackground h))"

fun register_existing :: "component list \<Rightarrow> plugin_host \<Rightarrow> plugin_host \<times> error option" where
  "register_existing [] h = (h, None)"
| "register_existing (c # cs) h =
     (case component_registered c {''background-model''} h of
        Inl err \<Rightarrow> (h, Some err)
      | Inr h' \<Rightarrow> register_existing cs h')"

definition module_load :: "env \<Rightarrow> plugin_host \<Rightarrow> plugin_host \<times> error option" where
  "module_load e h =
     (let h1 = register_computation_types h
      in case schema_entity ''background_model'' None h1 of
           Inl err \<Rightarrow> (h1, Some err)
         | Inr (background_model_entity, h2) \<Rightarrow>
             register_existing (get_components_by_type e ''background-model'')
               (h2\<lparr>component_listeners := component_listeners h2 @ [ComponentRegisteredListener]\<rparr>))"

section \<open>The document model and the menu actions of BackgroundSubtraction.py\<close>

text \<open>
  Modelled from the spec: the host's document model, as far as the menu actions read and
  write it.  Data items are values with a unique \<open>uuid\<close>; graphics and data structures are
  mutated after they have been handed on, so they are referenced: a graphic by its address
  in the store \<open>graphics\<close>, a data structure by its index in \<open>data_structures\<close>.
\<close>

datatype input_value =
    NoneV
  | DataItemV data_item
  | StructureV nat
  | GraphicV nat
  | GraphicsV "nat list"

record computation =
  processing_id :: string
  inputs :: "(string \<times> input_value) list"
  outputs :: "(string \<times> data_item) list"

text \<open>\<open>get_input\<close> and \<open>get_output\<close> return \<open>None\<close> for a name the computation does not have.\<close>

definition get_input :: "computation \<Rightarrow> string \<Rightarrow> input_value" where
  "get_input c name = (case map_of (inputs c) name of None \<Rightarrow> NoneV | Some v \<Rightarrow> v)"

definition get_output :: "computation \<Rightarrow> string \<Rightarrow> data_item option" where
  "get_output c name = map_of (outputs c) name"

text \<open>The calls the plugin makes on a display item, kept in order.\<close>

datatype display_call =
    AppendDisplayDataChannel data_item
  | MoveDisplayLayerBackward nat
  | SetDisplayLayerProperties nat string string
  | SetDisplayProperty string string

record display =
  display_data_items :: "data_item list"
  selected_graphics :: "nat list"
  display_calls :: "display_call list"

text \<open>
  The document model behind \<open>api.library\<close> and \<open>window.library\<close> (one per application),
  the graphics store and the window: \<open>source_data_items\<close> is the host's
  \<open>get_source_data_items\<close>, \<open>displayed\<close> the items passed to \<open>window.display_data_item\<close>.
\<close>

record world =
  data_items :: "data_item list"
  data_structures :: "data_structure list"
  computations :: "computation list"
  next_uuid :: nat
  source_data_items :: "data_item \<Rightarrow> data_item list"
  graphics :: "nat \<Rightarrow> graphic"
  target_data_item :: "data_item option"
  target_display :: "display option"
  displayed :: "data_item list"

definition create_data_item :: "world \<Rightarrow> data_item \<times> world" where
  "create_data_item w =
     (let d = \<lparr>uuid = next_uuid w, item_xdata = None\<rparr>
      in (d, w\<lparr>data_items := data_items w @ [d], next_uuid := Suc (next_uuid w)\<rparr>))"

definition create_data_item_from_data :: "env \<Rightarrow> ndarray \<Rightarrow> world \<Rightarrow> data_item \<times> world" where
  "create_data_item_from_data e arr w =
     (let d = \<lparr>uuid = next_uuid w, item_xdata = Some (new_data_and_metadata e arr None None)\<rparr>
      in (d, w\<lparr>data_items := data_items w @ [d], next_uuid := Suc (next_uuid w)\<rparr>))"

definition create_computation ::
  "string \<Rightarrow> (string \<times> input_value) list \<Rightarrow> (string \<times> data_item) list \<Rightarrow> world \<Rightarrow> world" where
  "create_computation pid ins outs w =
     w\<lparr>computations := computations w @ [\<lparr>processing_id = pid, inputs = ins, outputs = outs\<rparr>]\<rparr>"

text \<open>\<open>DataItem.datum_dimension_count\<close>: that of its xdata, 0 without data.\<close>

definition item_datum_dimension_count :: "data_item \<Rightarrow> nat" where
  "item_datum_dimension_count d =
     (case item_xdata d of None \<Rightarrow> 0 | Some x \<Rightarrow> datum_dimension_count x)"

subsection \<open>add_background_subtraction_computation\<close>

text \<open>
  \<^verbatim>\<open>for target_interval in intervals: target_interval.graphic_id = "background";
  target_interval.label = _("Background")\<close>
\<close>

fun label_intervals :: "env \<Rightarrow> nat list \<Rightarrow> (nat \<Rightarrow> graphic) \<Rightarrow> (nat \<Rightarrow> graphic)" where
  "label_intervals e [] store = store"
| "label_intervals e (r # rs) store =
     label_intervals e rs
       (store(r := (store r)\<lparr>graphic_id := Some ''background'',
                              label := Some (gettext e ''Background'')\<rparr>))"

definition style_display :: "env \<Rightarrow> data_item \<Rightarrow> data_item \<Rightarrow> display \<Rightarrow> display" where
  "style_display e background signal d =
     d\<lparr>display_calls := display_calls d @
        [AppendDisplayDataChannel background,
         AppendDisplayDataChannel signal,
         MoveDisplayLayerBackward 0,
         MoveDisplayLayerBackward 1,
         SetDisplayLayerProperties 0 (gettext e ''Background'') ''rgba(255, 0, 0, 0.3)'',
         SetDisplayLayerProperties 1 (gettext e ''Signal'') ''#0F0'',
         SetDisplayLayerProperties 2 (gettext e ''Data'') ''#1E90FF'',
         SetDisplayProperty ''legend_position'' ''top-right'']\<rparr>"

definition add_background_subtraction_computation ::
  "env \<Rightarrow> world \<Rightarrow> display \<Rightarrow> data_item \<Rightarrow> nat list \<Rightarrow> world \<times> display" where
  "add_background_subtraction_computation e w display_item data_item intervals =
     (case create_data_item w of (background, w1) \<Rightarrow>
      case create_data_item w1 of (signal, w2) \<Rightarrow>
        let r = length (data_structures w2);
            w3 = w2\<lparr>data_structures := data_structures w2 @
                     [\<lparr>structure_type = ''power_law_fit_background_model'', source = None\<rparr>]\<rparr>;
            w4 = w3\<lparr>data_structures := (data_structures w3)
                     [r := (data_structures w3 ! r)\<lparr>source := Some background\<rparr>]\<rparr>;
            w5 = create_computation ''eels.background_subtraction3''
                   [(''eels_spectrum_data_item'', DataItemV data_item),
                    (''background_model'', StructureV r),
                    (''fit_interval_graphics'', GraphicsV intervals)]
                   [(''background'', background), (''subtracted'', signal)] w4;
            w6 = w5\<lparr>graphics := label_intervals e intervals (graphics w5)\<rparr>
        in (w6, style_display e background signal display_item))"

subsection \<open>subtract_background_from_signal\<close>

definition subtract_background_from_signal :: "env \<Rightarrow> world \<Rightarrow> world" where
  "subtract_background_from_signal e w =
     (case target_display w of
        None \<Rightarrow> w
      | Some target_display_item \<Rightarrow>
          (case target_data_item w of
             None \<Rightarrow> w
           | Some item \<Rightarrow>
               (let target_intervals =
                      filter (\<lambda>r. graphic_type (graphics w r) = ''interval-graphic'')
                        (selected_graphics target_display_item)
                in if target_intervals \<noteq> [] then
                     (case add_background_subtraction_computation e w target_display_item item
                             target_intervals of
                        (w', d') \<Rightarrow> w'\<lparr>target_display := Some d'\<rparr>)
                   else w)))"

subsection \<open>subtract_background\<close>

text \<open>
  The inner test of the loop:
  \<^verbatim>\<open>get_input("eels_spectrum_data_item") in items and get_output("subtracted") in items\<close>.
  Only a data item can be a member of the display's data items.
\<close>

definition display_has_spectrum_and_subtracted :: "data_item list \<Rightarrow> computation \<Rightarrow> bool" where
  "display_has_spectrum_and_subtracted items c =
     ((case get_input c ''eels_spectrum_data_item'' of DataItemV d \<Rightarrow> d \<in> set items | _ \<Rightarrow> False)
      \<and> (case get_output c ''subtracted'' of Some d \<Rightarrow> d \<in> set items | None \<Rightarrow> False))"

text \<open>
  The body run for the first computation that passes the test; the loop ends after it.
  Iterating the \<open>fit_interval_graphics\<close> input raises \<open>TypeError\<close> when it is not a sequence.
\<close>

definition subtract_background_body :: "env \<Rightarrow> world \<Rightarrow> computation \<Rightarrow> error + world" where
  "subtract_background_body e w c =
     (case get_input c ''eels_spectrum_data_item'' of
        DataItemV eels_spectrum_data_item \<Rightarrow>
          (case get_input c ''fit_interval_graphics'' of
             GraphicsV fit_interval_graphics \<Rightarrow>
               (case source_data_items w eels_spectrum_data_item of
                  [src] \<Rightarrow>
                    (case item_xdata src of
                       None \<Rightarrow> Inl AssertionError
                     | Some source_xdata \<Rightarrow>
                         if is_navigable source_xdata \<and> item_datum_dimension_count src = 1 then
                           (case create_data_item_from_data e
                                   (zeros (navigation_dimension_shape source_xdata)) w of
                              (subtracted, w1) \<Rightarrow>
                                let w2 = create_computation ''eels.subtract_background''
                                           [(''spectrum_image_data_item'', DataItemV src),
                                            (''fit_interval_graphics'', GraphicsV fit_interval_graphics),
                                            (''background_model'', get_input c ''background_model'')]
                                           [(''subtracted'', subtracted)] w1
                                in Inr (w2\<lparr>displayed := displayed w2 @ [subtracted]\<rparr>))
                         else Inr w)
                | _ \<Rightarrow> Inr w)
           | _ \<Rightarrow> Inl TypeError)
      | _ \<Rightarrow> Inl AttributeError)"

fun subtract_background_loop ::
  "env \<Rightarrow> world \<Rightarrow> data_item list \<Rightarrow> computation list \<Rightarrow> error + world" where
  "subtract_background_loop e w items [] = Inr w"
| "subtract_background_loop e w items (c # cs) =
     (if processing_id c = ''eels.background_subtraction3'' then
        (if display_has_spectrum_and_subtracted items c then subtract_background_body e w c
         else subtract_background_loop e w items cs)
      else subtract_background_loop e w items cs)"

text \<open>
  The menu action \<open>subtract_background(api, window)\<close>.  It returns the document after
  the action, or the exception raised; nothing is written before the last statement that
  can raise.
\<close>

definition subtract_background_action :: "env \<Rightarrow> world \<Rightarrow> error + world" where
  "subtract_background_action e w =
     (case target_display w of
        None \<Rightarrow> Inr w
      | Some disp \<Rightarrow>
          subtract_background_loop e w (display_data_items disp) (computations w))"

text \<open>
  The test of the specification, in its words: a computation
  \<open>eels.background_subtraction3\<close> whose \<open>eels_spectrum_data_item\<close> input and whose
  \<open>subtracted\<close> output are both among the given data items (those of the target display).
\<close>

definition shows_background_subtraction :: "data_item list \<Rightarrow> computation \<Rightarrow> bool" where
  "shows_background_subtraction items c =
     (processing_id c = ''eels.background_subtraction3''
      \<and> (\<exists>d \<in> set items. get_input c ''eels_spectrum_data_item'' = DataItemV d)
      \<and> (\<exists>d \<in> set items. get_output c ''subtracted'' = Some d))"

text \<open>The selected graphics of a display that are interval graphics.\<close>

definition selected_intervals :: "world \<Rightarrow> display \<Rightarrow> nat list" where
  "selected_intervals w d =
     filter (\<lambda>r. graphic_type (graphics w r) = ''interval-graphic'') (selected_graphics d)"

section \<open>PlugIns/EELS/UI.py: the menu\<close>

text \<open>
  What a menu item runs when it is triggered: each \<open>lambda\<close> of \<open>build_menus\<close> calls one
  processing function on the document controller; \<open>filter_element\<close> also gets the fit and
  the signal energy ranges.
\<close>

datatype menu_action =
    ProcessingSubtractLinearBackground
  | ProcessingSubtractBackgroundSignal
  | ProcessingExtractSignal
  | ShowColorChannels
  | FilterChannel
  | FilterElement "int \<times> int" "int \<times> int"

text \<open>Modelled from the spec: the processing menu of a document controller, in order.\<close>

record document_controller =
  processing_menu :: "(string \<times> menu_action) list"

definition add_menu_item ::
  "string \<Rightarrow> menu_action \<Rightarrow> document_controller \<Rightarrow> document_controller" where
  "add_menu_item item_title action dc =
     dc\<lparr>processing_menu := processing_menu dc @ [(item_title, action)]\<rparr>"

definition build_menus :: "(string \<Rightarrow> string) \<Rightarrow> document_controller \<Rightarrow> document_controller" where
  "build_menus tr dc =
     add_menu_item (tr ''Elemental Map (Ga L)'') (FilterElement (1100, 1200) (1220, 1420))
      (add_menu_item (tr ''Elemental Map (Si K)'') (FilterElement (1700, 1800) (1839, 2039))
       (add_menu_item (tr ''Filter Channel'') FilterChannel
        (add_menu_item (tr ''Show Color Channels'') ShowColorChannels
         (add_menu_item (tr ''Extract Signal'') ProcessingExtractSignal
          (add_menu_item (tr ''Subtract Background Signal'') ProcessingSubtractBackgroundSignal
           (add_menu_item (tr ''Subtract Linear Background'') ProcessingSubtractLinearBackground
             dc))))))"

datatype menu_handler = BuildMenus

text \<open>Modelled from the spec: the application and the menu handlers registered with it.\<close>

record application =
  menu_handlers :: "menu_handler list"

definition register_menu_handler :: "menu_handler \<Rightarrow> application \<Rightarrow> application" where
  "register_menu_handler h app = app\<lparr>menu_handlers := menu_handlers app @ [h]\<rparr>"

text \<open>
  Importing the module.  The argument is what the guarded imports find: \<open>None\<close> when one
  of them raises \<open>ImportError\<close> (\<open>import_ok\<close> stays false), otherwise the value of
  \<open>Application.app\<close>, itself \<open>None\<close> when no application is running.  The result is the
  same, after the import.
\<close>

definition ui_module_load :: "application option option \<Rightarrow> application option option" where
  "ui_module_load host =
     (case host of
        None \<Rightarrow> None
      | Some None \<Rightarrow> Some None
      | Some (Some app) \<Rightarrow> Some (Some (register_menu_handler BuildMenus app)))"

section \<open>Sample inputs\<close>

text \<open>Concrete values on which the theorems below are instantiated.\<close>

definition eV_calibration :: calibration where
  "eV_calibration = \<lparr>offset = 0, scale = 1, units = ''eV''\<rparr>"

definition nm_calibration :: calibration where
  "nm_calibration = \<lparr>offset = 0, scale = 1, units = ''nm''\<rparr>"

definition sample_spectrum :: xdata where
  "sample_spectrum =
     \<lparr>data = \<lparr>shape = [2], elems = [Finite 5, Finite 7]\<rparr>,
      intensity_calibration = nm_calibration,
      dimensional_calibrations = [eV_calibration],
      is_datum_1d = True, is_navigable = False, datum_dimension_count = 1,
      datum_dimensional_calibrations = [eV_calibration],
      navigation_dimension_shape = [], navigation_dimensional_calibrations = []\<rparr>"

definition sample_image :: xdata where
  "sample_image =
     \<lparr>data = \<lparr>shape = [3, 2], elems = [Finite 1, Finite 2, Finite 3, Finite 4, Finite 5, Finite 6]\<rparr>,
      intensity_calibration = nm_calibration,
      dimensional_calibrations = [nm_calibration, eV_calibration],
      is_datum_1d = True, is_navigable = True, datum_dimension_count = 1,
      datum_dimensional_calibrations = [eV_calibration],
      navigation_dimension_shape = [3], navigation_dimensional_calibrations = [nm_calibration]\<rparr>"

definition sample_new_data_and_metadata ::
  "ndarray \<Rightarrow> calibration option \<Rightarrow> calibration list option \<Rightarrow> xdata" where
  "sample_new_data_and_metadata d ic dcs =
     \<lparr>data = d,
      intensity_calibration = (case ic of None \<Rightarrow> \<lparr>offset = 0, scale = 1, units = []\<rparr> | Some c \<Rightarrow> c),
      dimensional_calibrations = (case dcs of None \<Rightarrow> [] | Some cs \<Rightarrow> cs),
      is_datum_1d = (length (shape d) = 1), is_navigable = False,
      datum_dimension_count = length (shape d),
      datum_dimensional_calibrations = (case dcs of None \<Rightarrow> [] | Some cs \<Rightarrow> cs),
      navigation_dimension_shape = [], navigation_dimensional_calibrations = []\<rparr>"

text \<open>A component that answers every call with its input, and one that always raises.\<close>

definition echo_model :: component where
  "echo_model =
     \<lparr>background_model_id = ''power_law_fit_background_model'',
      title = ''Power Law'', package_title = ''EELS'',
      fit_background = (\<lambda>sx fis si. Some [''background_model'' \<mapsto> sx]),
      subtract_background = (\<lambda>sx fis. Some [''subtracted'' \<mapsto> sx]),
      integrate_signal = (\<lambda>sx ex fis si. Some [''integrated'' \<mapsto> sx])\<rparr>"

definition failing_model :: component where
  "failing_model =
     \<lparr>background_model_id = ''power_law_fit_background_model'',
      title = ''Failing'', package_title = ''EELS'',
      fit_background = (\<lambda>sx fis si. None),
      subtract_background = (\<lambda>sx fis. None),
      integrate_signal = (\<lambda>sx ex fis si. None)\<rparr>"

definition sample_env :: "(component \<times> string set) list \<Rightarrow> env" where
  "sample_env reg =
     \<lparr>gettext = (\<lambda>s. s), registry = reg,
      get_calibrated_interval_slice = (\<lambda>x iv. Some x),
      calibrated_subtract_spectrum = (\<lambda>x bg. Some x),
      new_data_and_metadata = sample_new_data_and_metadata\<rparr>"

definition power_law_structure :: data_structure where
  "power_law_structure = \<lparr>structure_type = ''power_law_fit_background_model'', source = None\<rparr>"

definition sample_interval_graphic :: graphic where
  "sample_interval_graphic =
     \<lparr>graphic_type = ''interval-graphic'', graphic_id = None, label = None,
      interval = Some (Finite (3/10), Finite (2/10))\<rparr>"

definition empty_computation :: api_computation where
  "empty_computation = \<lparr>referenced_xdata = Map.empty, set_calls = []\<rparr>"

definition spectrum_item :: data_item where
  "spectrum_item = \<lparr>uuid = 0, item_xdata = Some sample_spectrum\<rparr>"

definition image_item :: data_item where
  "image_item = \<lparr>uuid = 1, item_xdata = Some sample_image\<rparr>"

definition empty_item :: data_item where
  "empty_item = \<lparr>uuid = 2, item_xdata = None\<rparr>"

text \<open>A component for another model, and a registry holding both.\<close>

definition other_model :: component where
  "other_model = echo_model\<lparr>background_model_id := ''polynomial_background_model''\<rparr>"

definition sample_registry :: "(component \<times> string set) list" where
  "sample_registry = [(other_model, {''background-model''}), (echo_model, {''background-model''})]"

text \<open>The keyword arguments of a run of the mapping handler.\<close>

definition sample_signal_graphic :: graphic where
  "sample_signal_graphic =
     \<lparr>graphic_type = ''interval-graphic'', graphic_id = None, label = None,
      interval = Some (Finite (4/10), Finite (5/10))\<rparr>"

definition sample_kwargs :: map_kwargs where
  "sample_kwargs =
     \<lparr>kw_spectrum_image_data_item = image_item,
      kw_background_model = power_law_structure,
      kw_fit_interval_graphics = [sample_interval_graphic],
      kw_signal_interval_graphic = sample_signal_graphic,
      kw_eels_spectrum_data_item = Some spectrum_item\<rparr>"

text \<open>Two more registries: one without a matching component, one whose component raises.\<close>

definition other_registry :: "(component \<times> string set) list" where
  "other_registry = [(other_model, {''background-model''})]"

definition failing_registry :: "(component \<times> string set) list" where
  "failing_registry = [(failing_model, {''background-model''})]"

text \<open>A host in which nothing has been registered yet.\<close>

definition empty_host :: plugin_host where
  "empty_host =
     \<lparr>computation_types = [], schema_entity_ids = [], registered_entities = [],
      component_listeners = []\<rparr>"

text \<open>A window on a spectrum with one interval and one rectangle selected.\<close>

definition rectangle_graphic :: graphic where
  "rectangle_graphic =
     \<lparr>graphic_type = ''rect-graphic'', graphic_id = None, label = None, interval = None\<rparr>"

definition sample_display :: display where
  "sample_display =
     \<lparr>display_data_items = [spectrum_item], selected_graphics = [0, 1], display_calls = []\<rparr>"

definition sample_world :: world where
  "sample_world =
     \<lparr>data_items = [spectrum_item, image_item],
      data_structures = [],
      computations = [],
      next_uuid = 3,
      source_data_items = (\<lambda>d. if uuid d = 0 then [image_item] else []),
      graphics = (\<lambda>r. if r = 0 then sample_interval_graphic else rectangle_graphic),
      target_data_item = Some spectrum_item,
      target_display = Some sample_display,
      displayed = []\<rparr>"

text \<open>The document after a background subtraction was added to the spectrum.\<close>

definition background_item :: data_item where
  "background_item = \<lparr>uuid = 3, item_xdata = None\<rparr>"

definition subtracted_item :: data_item where
  "subtracted_item = \<lparr>uuid = 4, item_xdata = None\<rparr>"

definition fit_computation_node :: computation where
  "fit_computation_node =
     \<lparr>processing_id = ''eels.background_subtraction3'',
      inputs = [(''eels_spectrum_data_item'', DataItemV spectrum_item),
                (''background_model'', StructureV 0),
                (''fit_interval_graphics'', GraphicsV [0])],
      outputs = [(''background'', background_item), (''subtracted'', subtracted_item)]\<rparr>"

definition fitted_display :: display where
  "fitted_display =
     \<lparr>display_data_items = [spectrum_item, background_item, subtracted_item],
      selected_graphics = [], display_calls = []\<rparr>"

definition fitted_world :: world where
  "fitted_world =
     \<lparr>data_items = [spectrum_item, image_item, background_item, subtracted_item],
      data_structures = [power_law_structure],
      computations = [fit_computation_node],
      next_uuid = 5,
      source_data_items = (\<lambda>d. if uuid d = 0 then [image_item] else []),
      graphics = (\<lambda>r. if r = 0 then sample_interval_graphic else rectangle_graphic),
      target_data_item = Some spectrum_item,
      target_display = Some fitted_display,
      displayed = []\<rparr>"

text \<open>
  A computation of the same type without fit interval graphics, a display that shows only
  the spectrum image, and the documents that have them.
\<close>

definition unwired_computation_node :: computation where
  "unwired_computation_node =
     \<lparr>processing_id = ''eels.background_subtraction3'',
      inputs = [(''eels_spectrum_data_item'', DataItemV spectrum_item),
                (''background_model'', StructureV 0)],
      outputs = [(''background'', background_item), (''subtracted'', subtracted_item)]\<rparr>"

definition image_display :: display where
  "image_display =
     \<lparr>display_data_items = [image_item], selected_graphics = [], display_calls = []\<rparr>"

definition image_world :: world where
  "image_world = fitted_world\<lparr>target_display := Some image_display\<rparr>"

definition unwired_world :: world where
  "unwired_world = fitted_world\<lparr>computations := [unwired_computation_node]\<rparr>"

section \<open>Properties\<close>

subsection \<open>Lemmas on the handlers\<close>

lemma assert_spectrum_Inr:
  "assert_spectrum nav xo = Inr x \<longleftrightarrow>
     xo = Some x \<and> is_eV_spectrum x \<and> (nav \<longrightarrow> is_navigable x)"
  by (auto simp: assert_spectrum_def is_eV_spectrum_def split: option.splits list.splits if_splits)

lemma fit_loop_invoked:
  "fit_loop e mid sx fis si cs acc = (called, r) \<Longrightarrow>
     (\<exists>rest. filter (model_matches mid) cs = called @ rest)
   \<and> (\<forall>v. r = Inr v \<longrightarrow> called = filter (model_matches mid) cs)"
proof (induction cs arbitrary: acc called r)
  case Nil
  then show ?case by auto
next
  case (Cons c cs)
  show ?case
  proof (cases "mid = background_model_id c")
    case False
    with Cons show ?thesis by (simp add: model_matches_def)
  next
    case True
    with Cons.prems Cons.IH show ?thesis
      by (auto simp: model_matches_def split: option.splits prod.splits)
  qed
qed

lemma subtract_loop_invoked:
  "subtract_loop mid sx fis cs acc = (called, r) \<Longrightarrow>
     (\<exists>rest. filter (model_matches mid) cs = called @ rest)
   \<and> (\<forall>v. r = Inr v \<longrightarrow> called = filter (model_matches mid) cs)"
proof (induction cs arbitrary: acc called r)
  case Nil
  then show ?case by auto
next
  case (Cons c cs)
  show ?case
  proof (cases "mid = background_model_id c")
    case False
    with Cons show ?thesis by (simp add: model_matches_def)
  next
    case True
    with Cons.prems Cons.IH show ?thesis
      by (auto simp: model_matches_def split: option.splits prod.splits)
  qed
qed

lemma map_loop_invoked:
  "map_loop mid sx ex fis si cs acc = (called, r) \<Longrightarrow>
     (\<exists>rest. filter (model_matches mid) cs = called @ rest)
   \<and> (\<forall>v. r = Inr v \<longrightarrow> called = filter (model_matches mid) cs)"
proof (induction cs arbitrary: acc called r)
  case Nil
  then show ?case by auto
next
  case (Cons c cs)
  show ?case
  proof (cases "mid = background_model_id c")
    case False
    with Cons show ?thesis by (simp add: model_matches_def)
  next
    case True
    with Cons.prems Cons.IH show ?thesis
      by (auto simp: model_matches_def split: option.splits prod.splits)
  qed
qed

lemma fit_execute_invoked:
  "(\<exists>rest. matching_components e bm = fst (fit_execute e h item bm gs) @ rest)
   \<and> (\<forall>h'. snd (fit_execute e h item bm gs) = Inr h' \<longrightarrow>
         fst (fit_execute e h item bm gs) = matching_components e bm)"
proof (cases "fit_prepare e item gs")
  case (Inl err)
  then show ?thesis by (simp add: fit_execute_def)
next
  case (Inr p)
  obtain sx fis si sig where p: "p = (sx, fis, si, sig)" by (cases p) auto
  obtain called r where l: "fit_loop e (structure_type bm) sx fis si
      (get_components_by_type e ''background-model'') (None, None) = (called, r)"
    by (cases "fit_loop e (structure_type bm) sx fis si
      (get_components_by_type e ''background-model'') (None, None)") auto
  from fit_loop_invoked [OF l] Inr p l show ?thesis
    by (auto simp: fit_execute_def matching_components_def split: sum.splits)
qed

lemma subtract_execute_invoked:
  "(\<exists>rest. matching_components e bm = fst (subtract_execute e h item bm gs) @ rest)
   \<and> (\<forall>h'. snd (subtract_execute e h item bm gs) = Inr h' \<longrightarrow>
         fst (subtract_execute e h item bm gs) = matching_components e bm)"
proof (cases "assert_spectrum True (item_xdata item)")
  case (Inl err)
  then show ?thesis by (simp add: subtract_execute_def)
next
  case sx: (Inr sx)
  show ?thesis
  proof (cases "collect_fit_intervals gs")
    case (Inl err)
    with sx show ?thesis by (simp add: subtract_execute_def)
  next
    case (Inr fis)
    obtain called r where l: "subtract_loop (structure_type bm) sx fis
        (get_components_by_type e ''background-model'') None = (called, r)"
      by (cases "subtract_loop (structure_type bm) sx fis
        (get_components_by_type e ''background-model'') None") auto
    from subtract_loop_invoked [OF l] Inr sx l show ?thesis
      by (auto simp: subtract_execute_def matching_components_def split: sum.splits)
  qed
qed

lemma map_execute_invoked:
  "(\<exists>rest. matching_components e (kw_background_model kw) = fst (map_execute e h kw) @ rest)
   \<and> (\<forall>h'. snd (map_execute e h kw) = Inr h' \<longrightarrow>
         fst (map_execute e h kw) = matching_components e (kw_background_model kw))"
proof (cases "map_prepare kw")
  case (Inl err)
  then show ?thesis by (simp add: map_execute_def)
next
  case (Inr p)
  obtain sx ex fis si where p: "p = (sx, ex, fis, si)" by (cases p) auto
  obtain called r where l: "map_loop (structure_type (kw_background_model kw)) sx ex fis si
      (get_components_by_type e ''background-model'') None = (called, r)"
    by (cases "map_loop (structure_type (kw_background_model kw)) sx ex fis si
      (get_components_by_type e ''background-model'') None") auto
  from map_loop_invoked [OF l] Inr p l show ?thesis
    by (auto simp: map_execute_def matching_components_def split: sum.splits)
qed

lemma matching_components_registered:
  "c \<in> set (matching_components e bm) \<Longrightarrow>
     (\<exists>tys. (c, tys) \<in> set (registry e) \<and> ''background-model'' \<in> tys)
     \<and> background_model_id c = structure_type bm"
  by (auto simp: matching_components_def get_components_by_type_def model_matches_def)


subsection \<open>Evaluation of the sample runs\<close>

lemma sample_components:
  "get_components_by_type (sample_env sample_registry) ''background-model'' = [other_model, echo_model]"
  by (simp add: get_components_by_type_def sample_env_def sample_registry_def)

lemma sample_matching:
  "matching_components (sample_env sample_registry) power_law_structure = [echo_model]"
  by (simp add: matching_components_def sample_components model_matches_def)
     (simp add: other_model_def echo_model_def power_law_structure_def)

lemma sample_fit_prepare:
  "fit_prepare (sample_env reg) spectrum_item [sample_interval_graphic]
   = Inr (sample_spectrum, [(Finite (2/10), Finite (3/10))], (Finite (2/10), Finite 1), sample_spectrum)"
  by (simp add: fit_prepare_def assert_spectrum_def py_min_def sample_env_def spectrum_item_def
        sample_spectrum_def eV_calibration_def sample_interval_graphic_def)

lemma sample_fit_execute:
  "fit_execute (sample_env sample_registry) (fit_init empty_computation)
     spectrum_item power_law_structure [sample_interval_graphic]
   = ([echo_model], Inr \<lparr>fit_computation = empty_computation, background_xdata = Some sample_spectrum,
        fit_subtracted_xdata = Some sample_spectrum\<rparr>)"
  by (simp add: fit_execute_def sample_components sample_fit_prepare fit_init_def)
     (simp add: sample_env_def echo_model_def other_model_def power_law_structure_def)

lemma sample_subtract_execute:
  "subtract_execute (sample_env sample_registry) (subtract_init empty_computation)
     image_item power_law_structure [sample_interval_graphic]
   = ([echo_model], Inr \<lparr>subtract_computation = empty_computation,
                          subtracted_xdata = Some sample_image\<rparr>)"
  by (simp add: subtract_execute_def sample_components subtract_init_def assert_spectrum_def
        image_item_def sample_image_def eV_calibration_def sample_interval_graphic_def)
     (simp add: echo_model_def other_model_def power_law_structure_def)

lemma sample_map_prepare:
  "map_prepare sample_kwargs
   = Inr (sample_image, Some sample_spectrum, [(Finite (2/10), Finite (3/10))],
          (Finite (4/10), Finite (5/10)))"
  by (simp add: map_prepare_def sample_kwargs_def assert_spectrum_def sample_signal_graphic_def
        image_item_def sample_image_def spectrum_item_def sample_spectrum_def eV_calibration_def
        sample_interval_graphic_def)

lemma sample_map_execute:
  "map_execute (sample_env sample_registry) (map_init empty_computation) sample_kwargs
   = ([echo_model], Inr \<lparr>map_computation = empty_computation, mapped_xdata = Some sample_image\<rparr>)"
  by (simp add: map_execute_def sample_components sample_map_prepare map_init_def)
     (simp add: echo_model_def other_model_def power_law_structure_def sample_kwargs_def)

subsection \<open>The execute/commit split\<close>

lemma fit_execute_computation:
  "fit_computation (after_call h (snd (fit_execute e h item bm gs))) = fit_computation h"
  by (auto simp: fit_execute_def after_call_def split: sum.splits prod.splits)

lemma subtract_execute_computation:
  "subtract_computation (after_call h (snd (subtract_execute e h item bm gs))) = subtract_computation h"
  by (auto simp: subtract_execute_def after_call_def split: sum.splits prod.splits)

lemma map_execute_computation:
  "map_computation (after_call h (snd (map_execute e h kw))) = map_computation h"
  by (auto simp: map_execute_def after_call_def split: sum.splits prod.splits)

lemma fit_commit_publishes:
  "fit_commit h = Inr h' \<Longrightarrow>
     \<exists>bg sub. background_xdata h = Some bg \<and> fit_subtracted_xdata h = Some sub
       \<and> background_xdata h' = Some bg \<and> fit_subtracted_xdata h' = Some sub
       \<and> referenced_xdata (fit_computation h') =
           (referenced_xdata (fit_computation h))(''background'' \<mapsto> bg, ''subtracted'' \<mapsto> sub)
       \<and> set_calls (fit_computation h') =
           set_calls (fit_computation h) @ [(''background'', bg), (''subtracted'', sub)]"
  by (auto simp: fit_commit_def set_referenced_xdata_def split: option.splits)

lemma subtract_commit_publishes:
  "subtract_commit h = Inr h' \<Longrightarrow>
     \<exists>s. subtracted_xdata h = Some s \<and> subtracted_xdata h' = Some s
       \<and> referenced_xdata (subtract_computation h') =
           (referenced_xdata (subtract_computation h))(''subtracted'' \<mapsto> s)
       \<and> set_calls (subtract_computation h') =
           set_calls (subtract_computation h) @ [(''subtracted'', s)]"
  by (auto simp: subtract_commit_def set_referenced_xdata_def split: option.splits)

lemma map_commit_publishes:
  "map_commit h = Inr h' \<Longrightarrow>
     \<exists>m. mapped_xdata h = Some m \<and> mapped_xdata h' = Some m
       \<and> referenced_xdata (map_computation h') =
           (referenced_xdata (map_computation h))(''map'' \<mapsto> m)
       \<and> set_calls (map_computation h') = set_calls (map_computation h) @ [(''map'', m)]"
  by (auto simp: map_commit_def set_referenced_xdata_def split: option.splits)

lemma fit_execute_then_commit:
  "snd (fit_execute e h item bm gs) = Inr h' \<Longrightarrow> \<exists>h''. fit_commit h' = Inr h''"
  by (auto simp: fit_execute_def fit_commit_def split: sum.splits prod.splits)

lemma subtract_execute_then_commit:
  "snd (subtract_execute e h item bm gs) = Inr h' \<Longrightarrow> \<exists>h''. subtract_commit h' = Inr h''"
  by (auto simp: subtract_execute_def subtract_commit_def split: sum.splits prod.splits)

lemma map_execute_then_commit:
  "snd (map_execute e h kw) = Inr h' \<Longrightarrow> \<exists>h''. map_commit h' = Inr h''"
  by (auto simp: map_execute_def map_commit_def split: sum.splits prod.splits)

text \<open>
  C1.  For each of the three handlers, \<open>execute\<close> leaves the computation it holds as it
  was, whether it returns or raises: no output is set and \<open>set_referenced_xdata\<close> is not
  called.  Results go to the buffers only.  \<open>commit\<close> on any handler either raises and
  publishes nothing, or sets the referenced xdata of its outputs to exactly the buffered
  values, by one call of \<open>set_referenced_xdata\<close> per output, and keeps the buffers.
  After an \<open>execute\<close> that returned, \<open>commit\<close> does not raise.
\<close>

theorem execute_buffers_commit_publishes:
  "fit_computation (after_call fh (snd (fit_execute e fh item bm gs))) = fit_computation fh
   \<and> subtract_computation (after_call sh (snd (subtract_execute e sh item bm gs))) = subtract_computation sh
   \<and> map_computation (after_call mh (snd (map_execute e mh kw))) = map_computation mh
   \<and> (\<forall>h'. snd (fit_execute e fh item bm gs) = Inr h' \<longrightarrow> (\<exists>h''. fit_commit h' = Inr h''))
   \<and> (\<forall>h'. snd (subtract_execute e sh item bm gs) = Inr h' \<longrightarrow> (\<exists>h''. subtract_commit h' = Inr h''))
   \<and> (\<forall>h'. snd (map_execute e mh kw) = Inr h' \<longrightarrow> (\<exists>h''. map_commit h' = Inr h''))
   \<and> (\<forall>h h'. fit_commit h = Inr h' \<longrightarrow>
        (\<exists>bg sub. background_xdata h = Some bg \<and> fit_subtracted_xdata h = Some sub
           \<and> background_xdata h' = Some bg \<and> fit_subtracted_xdata h' = Some sub
           \<and> referenced_xdata (fit_computation h') =
               (referenced_xdata (fit_computation h))(''background'' \<mapsto> bg, ''subtracted'' \<mapsto> sub)
           \<and> set_calls (fit_computation h') =
               set_calls (fit_computation h) @ [(''background'', bg), (''subtracted'', sub)]))
   \<and> (\<forall>h h'. subtract_commit h = Inr h' \<longrightarrow>
        (\<exists>s. subtracted_xdata h = Some s \<and> subtracted_xdata h' = Some s
           \<and> referenced_xdata (subtract_computation h') =
               (referenced_xdata (subtract_computation h))(''subtracted'' \<mapsto> s)
           \<and> set_calls (subtract_computation h') =
               set_calls (subtract_computation h) @ [(''subtracted'', s)]))
   \<and> (\<forall>h h'. map_commit h = Inr h' \<longrightarrow>
        (\<exists>m. mapped_xdata h = Some m \<and> mapped_xdata h' = Some m
           \<and> referenced_xdata (map_computation h') =
               (referenced_xdata (map_computation h))(''map'' \<mapsto> m)
           \<and> set_calls (map_computation h') = set_calls (map_computation h) @ [(''map'', m)]))"
proof (intro conjI allI impI)
  show "fit_computation (after_call fh (snd (fit_execute e fh item bm gs))) = fit_computation fh"
    by (rule fit_execute_computation)
  show "subtract_computation (after_call sh (snd (subtract_execute e sh item bm gs)))
          = subtract_computation sh"
    by (rule subtract_execute_computation)
  show "map_computation (after_call mh (snd (map_execute e mh kw))) = map_computation mh"
    by (rule map_execute_computation)
qed (erule fit_execute_then_commit subtract_execute_then_commit map_execute_then_commit
       fit_commit_publishes subtract_commit_publishes map_commit_publishes)+

theorem execute_buffers_commit_publishes_witness:
  "snd (fit_execute (sample_env sample_registry) (fit_init empty_computation)
          spectrum_item power_law_structure [sample_interval_graphic])
     = Inr \<lparr>fit_computation = empty_computation, background_xdata = Some sample_spectrum,
            fit_subtracted_xdata = Some sample_spectrum\<rparr>
   \<and> snd (subtract_execute (sample_env sample_registry) (subtract_init empty_computation)
          image_item power_law_structure [sample_interval_graphic])
     = Inr \<lparr>subtract_computation = empty_computation, subtracted_xdata = Some sample_image\<rparr>
   \<and> snd (map_execute (sample_env sample_registry) (map_init empty_computation) sample_kwargs)
     = Inr \<lparr>map_computation = empty_computation, mapped_xdata = Some sample_image\<rparr>
   \<and> fit_commit \<lparr>fit_computation = empty_computation, background_xdata = Some sample_spectrum,
                  fit_subtracted_xdata = Some sample_spectrum\<rparr>
     = Inr \<lparr>fit_computation =
              \<lparr>referenced_xdata = [''background'' \<mapsto> sample_spectrum, ''subtracted'' \<mapsto> sample_spectrum],
               set_calls = [(''background'', sample_spectrum), (''subtracted'', sample_spectrum)]\<rparr>,
            background_xdata = Some sample_spectrum, fit_subtracted_xdata = Some sample_spectrum\<rparr>
   \<and> subtract_commit \<lparr>subtract_computation = empty_computation, subtracted_xdata = Some sample_image\<rparr>
     = Inr \<lparr>subtract_computation =
              \<lparr>referenced_xdata = [''subtracted'' \<mapsto> sample_image],
               set_calls = [(''subtracted'', sample_image)]\<rparr>,
            subtracted_xdata = Some sample_image\<rparr>
   \<and> map_commit \<lparr>map_computation = empty_computation, mapped_xdata = Some sample_image\<rparr>
     = Inr \<lparr>map_computation =
              \<lparr>referenced_xdata = [''map'' \<mapsto> sample_image], set_calls = [(''map'', sample_image)]\<rparr>,
            mapped_xdata = Some sample_image\<rparr>"
  using execute_buffers_commit_publishes [of "fit_init empty_computation" "sample_env sample_registry"
      spectrum_item power_law_structure "[sample_interval_graphic]"
      "subtract_init empty_computation" "map_init empty_computation" sample_kwargs]
    sample_fit_execute sample_subtract_execute sample_map_execute
  by (simp add: fit_commit_def subtract_commit_def map_commit_def set_referenced_xdata_def
        empty_computation_def)

subsection \<open>Selection of the background model\<close>

text \<open>
  C2 (as amended).  In every call of \<open>execute\<close> of any of the three handlers, every
  component whose algorithm is invoked is registered under \<open>background-model\<close> and has
  the \<open>background_model_id\<close> equal to the \<open>structure_type\<close> of the \<open>background_model\<close>
  input: a component with another id is never invoked.  In every call that returns
  without raising, the components invoked are exactly the registered
  \<open>background-model\<close> components with that id.
\<close>

theorem invoked_components_match:
  "set (fst (fit_execute e fh item bm gs)) \<subseteq> set (matching_components e bm)
   \<and> set (fst (subtract_execute e sh item bm gs)) \<subseteq> set (matching_components e bm)
   \<and> set (fst (map_execute e mh kw)) \<subseteq> set (matching_components e (kw_background_model kw))
   \<and> (\<forall>h'. snd (fit_execute e fh item bm gs) = Inr h' \<longrightarrow>
         set (fst (fit_execute e fh item bm gs)) = set (matching_components e bm))
   \<and> (\<forall>h'. snd (subtract_execute e sh item bm gs) = Inr h' \<longrightarrow>
         set (fst (subtract_execute e sh item bm gs)) = set (matching_components e bm))
   \<and> (\<forall>h'. snd (map_execute e mh kw) = Inr h' \<longrightarrow>
         set (fst (map_execute e mh kw)) = set (matching_components e (kw_background_model kw)))
   \<and> (\<forall>m c. c \<in> set (matching_components e m) \<longleftrightarrow>
         (\<exists>tys. (c, tys) \<in> set (registry e) \<and> ''background-model'' \<in> tys)
         \<and> background_model_id c = structure_type m)"
proof (intro conjI allI impI)
  show "set (fst (fit_execute e fh item bm gs)) \<subseteq> set (matching_components e bm)"
    using fit_execute_invoked [of e bm fh item gs] by (metis set_append sup_ge1)
  show "set (fst (subtract_execute e sh item bm gs)) \<subseteq> set (matching_components e bm)"
    using subtract_execute_invoked [of e bm sh item gs] by (metis set_append sup_ge1)
  show "set (fst (map_execute e mh kw)) \<subseteq> set (matching_components e (kw_background_model kw))"
    using map_execute_invoked [of e kw mh] by (metis set_append sup_ge1)
next
  fix h' assume "snd (fit_execute e fh item bm gs) = Inr h'"
  then show "set (fst (fit_execute e fh item bm gs)) = set (matching_components e bm)"
    using fit_execute_invoked [of e bm fh item gs] by simp
next
  fix h' assume "snd (subtract_execute e sh item bm gs) = Inr h'"
  then show "set (fst (subtract_execute e sh item bm gs)) = set (matching_components e bm)"
    using subtract_execute_invoked [of e bm sh item gs] by simp
next
  fix h' assume "snd (map_execute e mh kw) = Inr h'"
  then show "set (fst (map_execute e mh kw)) = set (matching_components e (kw_background_model kw))"
    using map_execute_invoked [of e kw mh] by simp
next
  fix m c
  show "c \<in> set (matching_components e m) \<longleftrightarrow>
         (\<exists>tys. (c, tys) \<in> set (registry e) \<and> ''background-model'' \<in> tys)
         \<and> background_model_id c = structure_type m"
    by (force simp: matching_components_def get_components_by_type_def model_matches_def)
qed

theorem invoked_components_match_witness:
  "snd (fit_execute (sample_env sample_registry) (fit_init empty_computation)
          spectrum_item power_law_structure [sample_interval_graphic])
     = Inr \<lparr>fit_computation = empty_computation, background_xdata = Some sample_spectrum,
            fit_subtracted_xdata = Some sample_spectrum\<rparr>
   \<and> set (fst (fit_execute (sample_env sample_registry) (fit_init empty_computation)
          spectrum_item power_law_structure [sample_interval_graphic]))
     = set (matching_components (sample_env sample_registry) power_law_structure)
   \<and> set (matching_components (sample_env sample_registry) power_law_structure) = {echo_model}
   \<and> (echo_model, {''background-model''}) \<in> set (registry (sample_env sample_registry))
   \<and> background_model_id echo_model = structure_type power_law_structure
   \<and> (other_model, {''background-model''}) \<in> set (registry (sample_env sample_registry))
   \<and> background_model_id other_model \<noteq> structure_type power_law_structure
   \<and> other_model \<notin> set (fst (fit_execute (sample_env sample_registry)
          (fit_init empty_computation) spectrum_item power_law_structure
          [sample_interval_graphic]))"
proof -
  note T = invoked_components_match [of "sample_env sample_registry" "fit_init empty_computation"
      spectrum_item power_law_structure "[sample_interval_graphic]"]
  have run: "snd (fit_execute (sample_env sample_registry) (fit_init empty_computation)
          spectrum_item power_law_structure [sample_interval_graphic])
     = Inr \<lparr>fit_computation = empty_computation, background_xdata = Some sample_spectrum,
            fit_subtracted_xdata = Some sample_spectrum\<rparr>"
    by (simp add: sample_fit_execute)
  from T run have eq: "set (fst (fit_execute (sample_env sample_registry)
          (fit_init empty_computation) spectrum_item power_law_structure
          [sample_interval_graphic]))
     = set (matching_components (sample_env sample_registry) power_law_structure)"
    by blast
  have ids: "background_model_id echo_model = structure_type power_law_structure"
      "background_model_id other_model \<noteq> structure_type power_law_structure"
    by (simp_all add: echo_model_def other_model_def power_law_structure_def)
  have reg: "(echo_model, {''background-model''}) \<in> set (registry (sample_env sample_registry))"
      "(other_model, {''background-model''}) \<in> set (registry (sample_env sample_registry))"
    by (simp_all add: sample_env_def sample_registry_def)
  from T ids(2) have "other_model \<notin> set (matching_components (sample_env sample_registry)
      power_law_structure)"
    by blast
  with eq run ids reg show ?thesis
    by (simp add: sample_matching)
qed

text \<open>
  A call whose spectrum has no data fails its first assertion before the registry is
  read: no component is invoked, although a registered component matches.
\<close>

theorem assertion_failure_invokes_nothing_counterexample:
  "fit_execute (sample_env sample_registry) (fit_init empty_computation)
     empty_item power_law_structure [sample_interval_graphic] = ([], Inl AssertionError)
   \<and> matching_components (sample_env sample_registry) power_law_structure = [echo_model]
   \<and> fst (fit_execute (sample_env sample_registry) (fit_init empty_computation)
        empty_item power_law_structure [sample_interval_graphic])
     \<noteq> matching_components (sample_env sample_registry) power_law_structure"
  by (simp add: sample_matching)
     (simp add: fit_execute_def fit_prepare_def assert_spectrum_def empty_item_def)

subsection \<open>Fallback when no component matches\<close>

lemma fit_loop_none:
  "filter (model_matches mid) cs = [] \<Longrightarrow> fit_loop e mid sx fis si cs acc = ([], Inr acc)"
  by (induction cs) (auto simp: model_matches_def split: if_splits)

lemma subtract_loop_none:
  "filter (model_matches mid) cs = [] \<Longrightarrow> subtract_loop mid sx fis cs acc = ([], Inr acc)"
  by (induction cs) (auto simp: model_matches_def split: if_splits)

lemma map_loop_none:
  "filter (model_matches mid) cs = [] \<Longrightarrow> map_loop mid sx ex fis si cs acc = ([], Inr acc)"
  by (induction cs) (auto simp: model_matches_def split: if_splits)

lemma assert_spectrum_pass:
  "is_eV_spectrum x \<Longrightarrow> nav \<longrightarrow> is_navigable x \<Longrightarrow> assert_spectrum nav (Some x) = Inr x"
  by (simp add: assert_spectrum_Inr)

lemma fit_fallback:
  assumes "matching_components e bm = []"
    and "item_xdata item = Some sx" and "is_eV_spectrum sx"
    and "collect_fit_intervals gs = Inr fis" and "py_min (map fst fis) = Inr fm"
    and "get_calibrated_interval_slice e sx (fm, Finite 1) = Some sig"
  shows "fit_execute e fh item bm gs =
     ([], Inr (fh\<lparr>
        background_xdata := Some (new_data_and_metadata e (zeros_like (data sig))
           (Some (intensity_calibration sig)) (Some (dimensional_calibrations sig))),
        fit_subtracted_xdata := Some (new_data_and_metadata e (data sig)
           (Some (intensity_calibration sig)) (Some (dimensional_calibrations sig)))\<rparr>))"
proof -
  have prep: "fit_prepare e item gs = Inr (sx, fis, (fm, Finite 1), sig)"
    using assms(2-6) by (simp add: fit_prepare_def assert_spectrum_pass)
  have loop: "fit_loop e (structure_type bm) sx fis (fm, Finite 1)
      (get_components_by_type e ''background-model'') (None, None) = ([], Inr (None, None))"
    using assms(1) by (simp add: matching_components_def fit_loop_none)
  show ?thesis by (simp add: fit_execute_def prep loop)
qed

lemma subtract_fallback:
  assumes "matching_components e bm = []"
    and "item_xdata img = Some sx" and "is_eV_spectrum sx" and "is_navigable sx"
    and "collect_fit_intervals gs = Inr fis"
  shows "subtract_execute e sh img bm gs =
     ([], Inr (sh\<lparr>subtracted_xdata := Some (new_data_and_metadata e
          (zeros (navigation_dimension_shape sx)) None
          (Some (navigation_dimensional_calibrations sx)))\<rparr>))"
proof -
  have loop: "subtract_loop (structure_type bm) sx fis
      (get_components_by_type e ''background-model'') None = ([], Inr None)"
    using assms(1) by (simp add: matching_components_def subtract_loop_none)
  show ?thesis
    using assms(2-5) by (simp add: subtract_execute_def assert_spectrum_pass loop navigation_zeros_def)
qed

lemma map_fallback:
  assumes "matching_components e (kw_background_model kw) = []"
    and "item_xdata (kw_spectrum_image_data_item kw) = Some sx"
    and "is_eV_spectrum sx" and "is_navigable sx"
    and "\<forall>d. kw_eels_spectrum_data_item kw = Some d \<longrightarrow>
           (\<exists>ex. item_xdata d = Some ex \<and> is_eV_spectrum ex)"
    and "collect_fit_intervals (kw_fit_interval_graphics kw) = Inr fis"
    and "interval (kw_signal_interval_graphic kw) = Some iv"
  shows "map_execute e mh kw =
     ([], Inr (mh\<lparr>mapped_xdata := Some (new_data_and_metadata e
          (zeros (navigation_dimension_shape sx)) None
          (Some (navigation_dimensional_calibrations sx)))\<rparr>))"
proof -
  obtain ex where ex: "(case kw_eels_spectrum_data_item kw of
                   None \<Rightarrow> Inr None
                 | Some eels_spectrum_data_item \<Rightarrow>
                     (case assert_spectrum False (item_xdata eels_spectrum_data_item) of
                        Inl err \<Rightarrow> Inl err
                      | Inr x \<Rightarrow> Inr (Some x))) = Inr ex"
    using assms(5) by (cases "kw_eels_spectrum_data_item kw") (auto simp: assert_spectrum_pass)
  have prep: "map_prepare kw = Inr (sx, ex, fis, normalized_interval iv)"
    using assms(2-4,6,7) ex by (simp add: map_prepare_def assert_spectrum_pass)
  have loop: "map_loop (structure_type (kw_background_model kw)) sx ex fis (normalized_interval iv)
      (get_components_by_type e ''background-model'') None = ([], Inr None)"
    using assms(1) by (simp add: matching_components_def map_loop_none)
  show ?thesis by (simp add: map_execute_def prep loop navigation_zeros_def)
qed

text \<open>
  C9 (as amended).  Take a run of \<open>execute\<close> in which no registered
  \<open>background-model\<close> component has the \<open>background_model_id\<close> of the
  \<open>background_model\<close> input, and whose input passes the checks made before the registry
  is read: the xdata is present, is one-dimensional datum data calibrated in eV (and
  navigable, for the two spectrum-image handlers; the optional spectrum of the mapping
  handler likewise, when given), every fit graphic has an interval (so has the signal
  graphic of the mapping handler), and, for \<open>EELSFitBackground\<close>, the fit graphics are
  not empty and the signal slice can be taken.  Then no component is invoked and the run
  returns with the defaults buffered: \<open>EELSFitBackground\<close> buffers a background made of
  zeros in the shape of the slice's data, with the slice's calibrations, and a subtracted
  result made of the slice's data; the other two buffer zeros in the navigation shape of
  the spectrum image, with its navigation calibrations.
\<close>

theorem fallback_without_matching_component:
  assumes "matching_components e bm = []"
    and "matching_components e (kw_background_model kw) = []"
  shows
   "(\<forall>sx fis fm sig.
        item_xdata item = Some sx \<and> is_eV_spectrum sx
        \<and> collect_fit_intervals gs = Inr fis \<and> py_min (map fst fis) = Inr fm
        \<and> get_calibrated_interval_slice e sx (fm, Finite 1) = Some sig \<longrightarrow>
        fit_execute e fh item bm gs =
          ([], Inr (fh\<lparr>
             background_xdata := Some (new_data_and_metadata e (zeros_like (data sig))
                (Some (intensity_calibration sig)) (Some (dimensional_calibrations sig))),
             fit_subtracted_xdata := Some (new_data_and_metadata e (data sig)
                (Some (intensity_calibration sig)) (Some (dimensional_calibrations sig)))\<rparr>)))
    \<and> (\<forall>sx fis.
        item_xdata img = Some sx \<and> is_eV_spectrum sx \<and> is_navigable sx
        \<and> collect_fit_intervals gs = Inr fis \<longrightarrow>
        subtract_execute e sh img bm gs =
          ([], Inr (sh\<lparr>subtracted_xdata := Some (new_data_and_metadata e
               (zeros (navigation_dimension_shape sx)) None
               (Some (navigation_dimensional_calibrations sx)))\<rparr>)))
    \<and> (\<forall>sx fis iv.
        item_xdata (kw_spectrum_image_data_item kw) = Some sx
        \<and> is_eV_spectrum sx \<and> is_navigable sx
        \<and> (\<forall>d. kw_eels_spectrum_data_item kw = Some d \<longrightarrow>
              (\<exists>ex. item_xdata d = Some ex \<and> is_eV_spectrum ex))
        \<and> collect_fit_intervals (kw_fit_interval_graphics kw) = Inr fis
        \<and> interval (kw_signal_interval_graphic kw) = Some iv \<longrightarrow>
        map_execute e mh kw =
          ([], Inr (mh\<lparr>mapped_xdata := Some (new_data_and_metadata e
               (zeros (navigation_dimension_shape sx)) None
               (Some (navigation_dimensional_calibrations sx)))\<rparr>)))
    \<and> (\<forall>a. zeros_like a = zeros (shape a))
    \<and> (\<forall>sh. shape (zeros sh) = sh \<and> length (elems (zeros sh)) = prod_list sh
           \<and> (\<forall>x \<in> set (elems (zeros sh)). x = Finite 0))"
proof (intro conjI allI impI)
  fix sx fis fm sig
  assume "item_xdata item = Some sx \<and> is_eV_spectrum sx
        \<and> collect_fit_intervals gs = Inr fis \<and> py_min (map fst fis) = Inr fm
        \<and> get_calibrated_interval_slice e sx (fm, Finite 1) = Some sig"
  then show "fit_execute e fh item bm gs =
          ([], Inr (fh\<lparr>
             background_xdata := Some (new_data_and_metadata e (zeros_like (data sig))
                (Some (intensity_calibration sig)) (Some (dimensional_calibrations sig))),
             fit_subtracted_xdata := Some (new_data_and_metadata e (data sig)
                (Some (intensity_calibration sig)) (Some (dimensional_calibrations sig)))\<rparr>))"
    using fit_fallback [OF assms(1)] by blast
next
  fix sx fis
  assume "item_xdata img = Some sx \<and> is_eV_spectrum sx \<and> is_navigable sx
        \<and> collect_fit_intervals gs = Inr fis"
  then show "subtract_execute e sh img bm gs =
          ([], Inr (sh\<lparr>subtracted_xdata := Some (new_data_and_metadata e
               (zeros (navigation_dimension_shape sx)) None
               (Some (navigation_dimensional_calibrations sx)))\<rparr>))"
    using subtract_fallback [OF assms(1)] by blast
next
  fix sx fis iv
  assume "item_xdata (kw_spectrum_image_data_item kw) = Some sx
        \<and> is_eV_spectrum sx \<and> is_navigable sx
        \<and> (\<forall>d. kw_eels_spectrum_data_item kw = Some d \<longrightarrow>
              (\<exists>ex. item_xdata d = Some ex \<and> is_eV_spectrum ex))
        \<and> collect_fit_intervals (kw_fit_interval_graphics kw) = Inr fis
        \<and> interval (kw_signal_interval_graphic kw) = Some iv"
  then show "map_execute e mh kw =
          ([], Inr (mh\<lparr>mapped_xdata := Some (new_data_and_metadata e
               (zeros (navigation_dimension_shape sx)) None
               (Some (navigation_dimensional_calibrations sx)))\<rparr>))"
    using map_fallback [OF assms(2)] by blast
qed (simp_all add: zeros_like_def zeros_def)


lemma other_matching:
  "matching_components (sample_env other_registry) power_law_structure = []"
  by (simp add: matching_components_def get_components_by_type_def model_matches_def
        sample_env_def other_registry_def other_model_def echo_model_def power_law_structure_def)

lemma sample_spectrum_eV: "is_eV_spectrum sample_spectrum"
  by (simp add: is_eV_spectrum_def sample_spectrum_def eV_calibration_def)

lemma sample_image_eV: "is_eV_spectrum sample_image \<and> is_navigable sample_image"
  by (simp add: is_eV_spectrum_def sample_image_def eV_calibration_def)

theorem fallback_without_matching_component_witness:
  "matching_components (sample_env other_registry) power_law_structure = []
   \<and> fit_execute (sample_env other_registry) (fit_init empty_computation) spectrum_item
        power_law_structure [sample_interval_graphic]
     = ([], Inr \<lparr>fit_computation = empty_computation,
          background_xdata = Some (sample_new_data_and_metadata
             \<lparr>shape = [2], elems = [Finite 0, Finite 0]\<rparr>
             (Some nm_calibration) (Some [eV_calibration])),
          fit_subtracted_xdata = Some (sample_new_data_and_metadata
             \<lparr>shape = [2], elems = [Finite 5, Finite 7]\<rparr>
             (Some nm_calibration) (Some [eV_calibration]))\<rparr>)
   \<and> subtract_execute (sample_env other_registry) (subtract_init empty_computation) image_item
        power_law_structure [sample_interval_graphic]
     = ([], Inr \<lparr>subtract_computation = empty_computation,
          subtracted_xdata = Some (sample_new_data_and_metadata
             \<lparr>shape = [3], elems = [Finite 0, Finite 0, Finite 0]\<rparr>
             None (Some [nm_calibration]))\<rparr>)
   \<and> map_execute (sample_env other_registry) (map_init empty_computation) sample_kwargs
     = ([], Inr \<lparr>map_computation = empty_computation,
          mapped_xdata = Some (sample_new_data_and_metadata
             \<lparr>shape = [3], elems = [Finite 0, Finite 0, Finite 0]\<rparr>
             None (Some [nm_calibration]))\<rparr>)"
proof -
  have m: "matching_components (sample_env other_registry) power_law_structure = []"
    by (rule other_matching)
  have m': "matching_components (sample_env other_registry) (kw_background_model sample_kwargs) = []"
    by (simp add: sample_kwargs_def other_matching)
  note T = fallback_without_matching_component [OF m m', of spectrum_item
      "[sample_interval_graphic]" "fit_init empty_computation" image_item
      "subtract_init empty_computation" "map_init empty_computation"]
  have fit: "fit_execute (sample_env other_registry) (fit_init empty_computation) spectrum_item
        power_law_structure [sample_interval_graphic]
     = ([], Inr ((fit_init empty_computation)\<lparr>
          background_xdata := Some (new_data_and_metadata (sample_env other_registry)
             (zeros_like (data sample_spectrum))
             (Some (intensity_calibration sample_spectrum))
             (Some (dimensional_calibrations sample_spectrum))),
          fit_subtracted_xdata := Some (new_data_and_metadata (sample_env other_registry)
             (data sample_spectrum)
             (Some (intensity_calibration sample_spectrum))
             (Some (dimensional_calibrations sample_spectrum)))\<rparr>))"
    by (rule T [THEN conjunct1, rule_format, of sample_spectrum
          "[(Finite (2/10), Finite (3/10))]" "Finite (2/10)" sample_spectrum])
       (simp add: sample_interval_graphic_def sample_spectrum_eV py_min_def spectrum_item_def sample_env_def)
  have sub: "subtract_execute (sample_env other_registry) (subtract_init empty_computation)
        image_item power_law_structure [sample_interval_graphic]
     = ([], Inr ((subtract_init empty_computation)\<lparr>
          subtracted_xdata := Some (new_data_and_metadata (sample_env other_registry)
             (zeros (navigation_dimension_shape sample_image)) None
             (Some (navigation_dimensional_calibrations sample_image)))\<rparr>))"
    by (rule T [THEN conjunct2, THEN conjunct1, rule_format, of sample_image
          "[(Finite (2/10), Finite (3/10))]"])
       (simp add: sample_interval_graphic_def sample_image_eV image_item_def)
  have mp: "map_execute (sample_env other_registry) (map_init empty_computation) sample_kwargs
     = ([], Inr ((map_init empty_computation)\<lparr>
          mapped_xdata := Some (new_data_and_metadata (sample_env other_registry)
             (zeros (navigation_dimension_shape sample_image)) None
             (Some (navigation_dimensional_calibrations sample_image)))\<rparr>))"
    by (rule T [THEN conjunct2, THEN conjunct2, THEN conjunct1, rule_format, of sample_image
          "[(Finite (2/10), Finite (3/10))]" "(Finite (4/10), Finite (5/10))"])
       (simp add: sample_image_eV sample_spectrum_eV sample_kwargs_def
          image_item_def spectrum_item_def sample_signal_graphic_def sample_interval_graphic_def)
  show ?thesis
    unfolding fit sub mp using m
    by (simp add: fit_init_def subtract_init_def map_init_def sample_env_def zeros_like_def
          zeros_def sample_spectrum_def sample_image_def eval_nat_numeral)
qed

text \<open>
  Without a matching component a run can still fail: for a data item without xdata the
  first assertion raises, and nothing is buffered.
\<close>

theorem failed_assertion_no_fallback_counterexample:
  "matching_components (sample_env []) power_law_structure = []
   \<and> item_xdata empty_item = None
   \<and> fit_execute (sample_env []) (fit_init empty_computation) empty_item power_law_structure
        [sample_interval_graphic] = ([], Inl AssertionError)
   \<and> subtract_execute (sample_env []) (subtract_init empty_computation) empty_item
        power_law_structure [sample_interval_graphic] = ([], Inl AssertionError)"
  by (simp add: matching_components_def get_components_by_type_def sample_env_def
        fit_execute_def fit_prepare_def subtract_execute_def assert_spectrum_def empty_item_def)

subsection \<open>Assertions of EELSFitBackground.execute\<close>

lemma fit_loop_not_assertion:
  "fit_loop e mid sx fis si cs acc \<noteq> (called, Inl AssertionError)"
  by (induction cs arbitrary: acc called) (auto split: option.splits prod.splits)

lemma fit_prepare_not_assertion:
  "item_xdata item = Some x \<Longrightarrow> is_eV_spectrum x \<Longrightarrow> fit_prepare e item gs \<noteq> Inl AssertionError"
  by (auto simp: fit_prepare_def assert_spectrum_pass py_min_def
      split: sum.splits option.splits list.splits)
     (induction gs, auto split: option.splits sum.splits)

lemma fit_loop_succeeds:
  assumes "\<forall>c\<in>set (filter (model_matches mid) cs).
     \<exists>res bg. fit_background c sx fis si = Some res \<and> res ''background_model'' = Some bg
       \<and> (res ''subtracted_spectrum'' \<noteq> None \<or> calibrated_subtract_spectrum e sx bg \<noteq> None)"
  shows "\<exists>acc'. fit_loop e mid sx fis si cs acc = (filter (model_matches mid) cs, Inr acc')"
  using assms
proof (induction cs arbitrary: acc)
  case Nil
  then show ?case by simp
next
  case (Cons c cs)
  show ?case
  proof (cases "mid = background_model_id c")
    case False
    with Cons show ?thesis by (simp add: model_matches_def)
  next
    case True
    then have mc: "model_matches mid c" by (simp add: model_matches_def)
    with Cons.prems obtain res bg where
      res: "fit_background c sx fis si = Some res" "res ''background_model'' = Some bg"
        "res ''subtracted_spectrum'' \<noteq> None \<or> calibrated_subtract_spectrum e sx bg \<noteq> None"
      by auto
    then obtain sub where sub: "(case res ''subtracted_spectrum'' of
                           Some s \<Rightarrow> Some s
                         | None \<Rightarrow> calibrated_subtract_spectrum e sx bg) = Some sub"
      by (cases "res ''subtracted_spectrum''") auto
    from Cons.prems have "\<forall>c\<in>set (filter (model_matches mid) cs).
        \<exists>res bg. fit_background c sx fis si = Some res \<and> res ''background_model'' = Some bg
        \<and> (res ''subtracted_spectrum'' \<noteq> None \<or> calibrated_subtract_spectrum e sx bg \<noteq> None)"
      by simp
    from Cons.IH [OF this, of "(Some bg, Some sub)"] obtain acc' where
      "fit_loop e mid sx fis si cs (Some bg, Some sub) = (filter (model_matches mid) cs, Inr acc')"
      by blast
    with True mc res sub show ?thesis by simp
  qed
qed

lemma collect_fit_intervals_total:
  "\<forall>g\<in>set gs. interval g \<noteq> None \<Longrightarrow>
     \<exists>fis. collect_fit_intervals gs = Inr fis \<and> length fis = length gs"
  by (induction gs) auto

lemma fit_execute_assertion_raised:
  assumes "item_xdata item = None
     \<or> (\<exists>x. item_xdata item = Some x
           \<and> (\<not> is_datum_1d x
               \<or> (\<exists>c cs. datum_dimensional_calibrations x = c # cs \<and> units c \<noteq> ''eV'')))"
  shows "fit_execute e fh item bm gs = ([], Inl AssertionError)"
  using assms
  by (auto simp: fit_execute_def fit_prepare_def assert_spectrum_def)

lemma fit_execute_not_assertion:
  assumes "item_xdata item = Some x" and "is_eV_spectrum x"
  shows "snd (fit_execute e fh item bm gs) \<noteq> Inl AssertionError"
proof (cases "fit_prepare e item gs")
  case (Inl err)
  with fit_prepare_not_assertion [OF assms, of e gs] show ?thesis
    by (simp add: fit_execute_def)
next
  case (Inr p)
  obtain sx fis si sig where p: "p = (sx, fis, si, sig)" by (cases p) auto
  obtain called r where l: "fit_loop e (structure_type bm) sx fis si
      (get_components_by_type e ''background-model'') (None, None) = (called, r)"
    by (cases "fit_loop e (structure_type bm) sx fis si
      (get_components_by_type e ''background-model'') (None, None)") auto
  with fit_loop_not_assertion [of e "structure_type bm" sx fis si
      "get_components_by_type e ''background-model''" "(None, None)" called]
  have "r \<noteq> Inl AssertionError" by auto
  with Inr p l show ?thesis
    by (auto simp: fit_execute_def split: sum.splits)
qed

lemma fit_execute_assigns:
  assumes "item_xdata item = Some sx" and "is_eV_spectrum sx"
    and "collect_fit_intervals gs = Inr fis" and "py_min (map fst fis) = Inr fm"
    and "get_calibrated_interval_slice e sx (fm, Finite 1) = Some sig"
    and "\<forall>c\<in>set (matching_components e bm).
       \<exists>res bg. fit_background c sx fis (fm, Finite 1) = Some res
         \<and> res ''background_model'' = Some bg
         \<and> (res ''subtracted_spectrum'' \<noteq> None \<or> calibrated_subtract_spectrum e sx bg \<noteq> None)"
  shows "\<exists>h' b s. fit_execute e fh item bm gs = (matching_components e bm, Inr h')
           \<and> background_xdata h' = Some b \<and> fit_subtracted_xdata h' = Some s
           \<and> fit_computation h' = fit_computation fh"
proof -
  have prep: "fit_prepare e item gs = Inr (sx, fis, (fm, Finite 1), sig)"
    using assms(1-5) by (simp add: fit_prepare_def assert_spectrum_pass)
  from fit_loop_succeeds [of "structure_type bm" "get_components_by_type e ''background-model''"
      sx fis "(fm, Finite 1)" e "(None, None)"] assms(6)
  obtain acc' where "fit_loop e (structure_type bm) sx fis (fm, Finite 1)
      (get_components_by_type e ''background-model'') (None, None)
      = (matching_components e bm, Inr acc')"
    by (auto simp: matching_components_def)
  then show ?thesis
    by (cases acc') (simp add: fit_execute_def prep)
qed

text \<open>
  C10 (as amended).  \<open>EELSFitBackground.execute\<close> raises \<open>AssertionError\<close>, invoking no
  component and leaving the handler and its buffers as they were, whenever the xdata of
  the spectrum is missing, is not one-dimensional datum data, or has a first datum
  calibration whose units are not \<open>eV\<close>.  When the xdata is present, one-dimensional and
  calibrated in eV, \<open>execute\<close> does not raise \<open>AssertionError\<close>; when moreover the fit
  intervals can be collected and have a minimum (which is so when the list of fit graphics
  is not empty and each has an interval), the signal slice can be taken, and every matching
  component returns a result with a \<open>background_model\<close> entry and either a
  \<open>subtracted_spectrum\<close> entry or a subtraction that succeeds, \<open>execute\<close> returns and both
  buffers are assigned.
\<close>

theorem fit_execute_assertions:
  "((item_xdata item = None
      \<or> (\<exists>x. item_xdata item = Some x
            \<and> (\<not> is_datum_1d x
                \<or> (\<exists>c cs. datum_dimensional_calibrations x = c # cs \<and> units c \<noteq> ''eV'')))) \<longrightarrow>
      fit_execute e fh item bm gs = ([], Inl AssertionError)
      \<and> after_call fh (snd (fit_execute e fh item bm gs)) = fh)
   \<and> ((\<exists>x. item_xdata item = Some x \<and> is_eV_spectrum x) \<longrightarrow>
        snd (fit_execute e fh item bm gs) \<noteq> Inl AssertionError)
   \<and> (\<forall>sx fis fm sig.
        item_xdata item = Some sx \<and> is_eV_spectrum sx
        \<and> collect_fit_intervals gs = Inr fis \<and> py_min (map fst fis) = Inr fm
        \<and> get_calibrated_interval_slice e sx (fm, Finite 1) = Some sig
        \<and> (\<forall>c\<in>set (matching_components e bm).
             \<exists>res bg. fit_background c sx fis (fm, Finite 1) = Some res
               \<and> res ''background_model'' = Some bg
               \<and> (res ''subtracted_spectrum'' \<noteq> None
                   \<or> calibrated_subtract_spectrum e sx bg \<noteq> None)) \<longrightarrow>
        (\<exists>h' b s. snd (fit_execute e fh item bm gs) = Inr h'
           \<and> background_xdata h' = Some b \<and> fit_subtracted_xdata h' = Some s))
   \<and> (gs \<noteq> [] \<and> (\<forall>g\<in>set gs. interval g \<noteq> None) \<longrightarrow>
        (\<exists>fis fm. collect_fit_intervals gs = Inr fis \<and> py_min (map fst fis) = Inr fm))"
proof (intro conjI allI impI)
  assume a: "item_xdata item = None
      \<or> (\<exists>x. item_xdata item = Some x
            \<and> (\<not> is_datum_1d x
                \<or> (\<exists>c cs. datum_dimensional_calibrations x = c # cs \<and> units c \<noteq> ''eV'')))"
  show "fit_execute e fh item bm gs = ([], Inl AssertionError)"
    by (rule fit_execute_assertion_raised [OF a])
  then show "after_call fh (snd (fit_execute e fh item bm gs)) = fh"
    by (simp add: after_call_def)
next
  assume "\<exists>x. item_xdata item = Some x \<and> is_eV_spectrum x"
  then show "snd (fit_execute e fh item bm gs) \<noteq> Inl AssertionError"
    using fit_execute_not_assertion by blast
next
  fix sx fis fm sig
  assume "item_xdata item = Some sx \<and> is_eV_spectrum sx
        \<and> collect_fit_intervals gs = Inr fis \<and> py_min (map fst fis) = Inr fm
        \<and> get_calibrated_interval_slice e sx (fm, Finite 1) = Some sig
        \<and> (\<forall>c\<in>set (matching_components e bm).
             \<exists>res bg. fit_background c sx fis (fm, Finite 1) = Some res
               \<and> res ''background_model'' = Some bg
               \<and> (res ''subtracted_spectrum'' \<noteq> None
                   \<or> calibrated_subtract_spectrum e sx bg \<noteq> None))"
  then obtain h' b s where "fit_execute e fh item bm gs = (matching_components e bm, Inr h')"
      "background_xdata h' = Some b" "fit_subtracted_xdata h' = Some s"
    using fit_execute_assigns [of item sx gs fis fm e sig bm fh] by blast
  then show "\<exists>h' b s. snd (fit_execute e fh item bm gs) = Inr h'
           \<and> background_xdata h' = Some b \<and> fit_subtracted_xdata h' = Some s"
    by simp
next
  assume a: "gs \<noteq> [] \<and> (\<forall>g\<in>set gs. interval g \<noteq> None)"
  then obtain fis where fis: "collect_fit_intervals gs = Inr fis" "length fis = length gs"
    using collect_fit_intervals_total by blast
  with a have "fis \<noteq> []" by auto
  then have "\<exists>fm. py_min (map fst fis) = Inr fm"
    by (cases fis) (auto simp: py_min_def)
  with fis show "\<exists>fis fm. collect_fit_intervals gs = Inr fis \<and> py_min (map fst fis) = Inr fm"
    by blast
qed

theorem fit_execute_assertions_witness:
  "item_xdata empty_item = None
   \<and> fit_execute (sample_env sample_registry) (fit_init empty_computation) empty_item
        power_law_structure [sample_interval_graphic] = ([], Inl AssertionError)
   \<and> item_xdata spectrum_item = Some sample_spectrum \<and> is_eV_spectrum sample_spectrum
   \<and> snd (fit_execute (sample_env sample_registry) (fit_init empty_computation) spectrum_item
        power_law_structure [sample_interval_graphic]) \<noteq> Inl AssertionError
   \<and> (\<exists>h' b s. snd (fit_execute (sample_env sample_registry) (fit_init empty_computation)
          spectrum_item power_law_structure [sample_interval_graphic]) = Inr h'
        \<and> background_xdata h' = Some b \<and> fit_subtracted_xdata h' = Some s)"
proof -
  note T = fit_execute_assertions [of _ "sample_env sample_registry" "fit_init empty_computation"
      power_law_structure "[sample_interval_graphic]"]
  have none: "item_xdata empty_item = None" by (simp add: empty_item_def)
  have some: "item_xdata spectrum_item = Some sample_spectrum" by (simp add: spectrum_item_def)
  have 1: "fit_execute (sample_env sample_registry) (fit_init empty_computation) empty_item
        power_law_structure [sample_interval_graphic] = ([], Inl AssertionError)"
    using T [of empty_item, THEN conjunct1] none by simp
  have 2: "snd (fit_execute (sample_env sample_registry) (fit_init empty_computation) spectrum_item
        power_law_structure [sample_interval_graphic]) \<noteq> Inl AssertionError"
    using T [of spectrum_item, THEN conjunct2, THEN conjunct1] some sample_spectrum_eV by blast
  have 3: "\<exists>h' b s. snd (fit_execute (sample_env sample_registry) (fit_init empty_computation)
          spectrum_item power_law_structure [sample_interval_graphic]) = Inr h'
        \<and> background_xdata h' = Some b \<and> fit_subtracted_xdata h' = Some s"
    by (rule T [of spectrum_item, THEN conjunct2, THEN conjunct2, THEN conjunct1, rule_format,
          of sample_spectrum "[(Finite (2/10), Finite (3/10))]" "Finite (2/10)" sample_spectrum])
       (simp add: some sample_spectrum_eV sample_matching sample_interval_graphic_def py_min_def,
        simp add: sample_env_def echo_model_def)
  from none some sample_spectrum_eV 1 2 3 show ?thesis by blast
qed

text \<open>
  The three conditions and a slice that can be taken do not suffice for the buffers to be
  assigned: the run ends with the exception of a matching component that raises, and with
  \<open>ValueError\<close> from \<open>min\<close> when the list of fit graphics is empty.
\<close>

theorem fit_execute_unassigned_counterexample:
  "item_xdata spectrum_item = Some sample_spectrum
   \<and> is_datum_1d sample_spectrum
   \<and> map units (datum_dimensional_calibrations sample_spectrum) = [''eV'']
   \<and> get_calibrated_interval_slice (sample_env failing_registry) sample_spectrum
        (Finite (2/10), Finite 1) = Some sample_spectrum
   \<and> fit_execute (sample_env failing_registry) (fit_init empty_computation) spectrum_item
        power_law_structure [sample_interval_graphic] = ([failing_model], Inl ExternalError)
   \<and> fit_execute (sample_env failing_registry) (fit_init empty_computation) spectrum_item
        power_law_structure [] = ([], Inl ValueError)
   \<and> background_xdata (fit_init empty_computation) = None
   \<and> fit_subtracted_xdata (fit_init empty_computation) = None"
  by (simp add: fit_execute_def sample_fit_prepare)
     (simp add: fit_prepare_def assert_spectrum_def py_min_def get_components_by_type_def
        fit_init_def sample_env_def failing_registry_def failing_model_def spectrum_item_def
        sample_spectrum_def eV_calibration_def power_law_structure_def)

subsection \<open>Registration of schema entities\<close>

text \<open>
  C3 (as amended).  For every component and every set of component types passed to
  \<open>component_registered\<close>: when \<open>background-model\<close> is among the types and the schema has
  no entity with the component's \<open>background_model_id\<close> yet, one entity with that id and
  parent \<open>BackgroundModelEntity\<close> is created and registered with \<open>DataStructure\<close>, under
  the component's title and package title; when \<open>background-model\<close> is among the types
  and the id is already in the schema, the call raises \<open>AssertionError\<close> and registers
  nothing; for any other component types nothing is created or registered.  So an entity
  is created and registered if and only if \<open>background-model\<close> is among the types and the
  id is new.
\<close>

theorem component_registered_creates_entity_iff:
  "(''background-model'' \<in> tys \<and> background_model_id c \<notin> set (schema_entity_ids h) \<longrightarrow>
      component_registered c tys h =
        Inr (h\<lparr>schema_entity_ids := schema_entity_ids h @ [background_model_id c],
               registered_entities := registered_entities h @
                 [(Entity (background_model_id c) (Some BackgroundModelEntity),
                   title c, package_title c)]\<rparr>))
   \<and> (''background-model'' \<in> tys \<and> background_model_id c \<in> set (schema_entity_ids h) \<longrightarrow>
        component_registered c tys h = Inl AssertionError)
   \<and> (''background-model'' \<notin> tys \<longrightarrow> component_registered c tys h = Inr h)
   \<and> ((\<exists>h'. component_registered c tys h = Inr h'
            \<and> registered_entities h' \<noteq> registered_entities h)
        \<longleftrightarrow> ''background-model'' \<in> tys \<and> background_model_id c \<notin> set (schema_entity_ids h))"
  by (auto simp: component_registered_def schema_entity_def register_entity_def)

theorem component_registered_creates_entity_iff_witness:
  "''background-model'' \<in> {''background-model'', ''plug-in''}
   \<and> background_model_id echo_model \<notin> set (schema_entity_ids empty_host)
   \<and> component_registered echo_model {''background-model'', ''plug-in''} empty_host
      = Inr \<lparr>computation_types = [],
             schema_entity_ids = [''power_law_fit_background_model''],
             registered_entities =
               [(Entity ''power_law_fit_background_model'' (Some (Entity ''background_model'' None)),
                 ''Power Law'', ''EELS'')],
             component_listeners = []\<rparr>
   \<and> ''background-model'' \<notin> {''plug-in''}
   \<and> component_registered echo_model {''plug-in''} empty_host = Inr empty_host"
  using component_registered_creates_entity_iff
          [of "{''background-model'', ''plug-in''}" echo_model empty_host]
        component_registered_creates_entity_iff [of "{''plug-in''}" echo_model empty_host]
  by (simp add: empty_host_def echo_model_def BackgroundModelEntity_def)

text \<open>
  A second component with an id the schema already has: \<open>background-model\<close> is among its
  types, yet the call raises and no entity is registered.
\<close>

theorem component_registered_twice_counterexample:
  "''background-model'' \<in> {''background-model''}
   \<and> component_registered echo_model {''background-model''} empty_host
      = Inr \<lparr>computation_types = [],
             schema_entity_ids = [''power_law_fit_background_model''],
             registered_entities =
               [(Entity ''power_law_fit_background_model'' (Some (Entity ''background_model'' None)),
                 ''Power Law'', ''EELS'')],
             component_listeners = []\<rparr>
   \<and> component_registered failing_model {''background-model''}
        \<lparr>computation_types = [],
         schema_entity_ids = [''power_law_fit_background_model''],
         registered_entities =
           [(Entity ''power_law_fit_background_model'' (Some (Entity ''background_model'' None)),
             ''Power Law'', ''EELS'')],
         component_listeners = []\<rparr>
      = Inl AssertionError"
  by (simp add: component_registered_def schema_entity_def register_entity_def empty_host_def
        echo_model_def failing_model_def BackgroundModelEntity_def)

subsection \<open>Registration of the computation handlers\<close>

lemma component_registered_types:
  "component_registered c tys h = Inr h' \<Longrightarrow> computation_types h' = computation_types h"
  by (auto simp: component_registered_def schema_entity_def register_entity_def
      split: if_splits)

lemma register_existing_types:
  "computation_types (fst (register_existing cs h)) = computation_types h"
  by (induction cs arbitrary: h) (auto split: sum.splits dest: component_registered_types)

lemma module_load_types:
  "computation_types (fst (module_load e h)) =
     computation_types h @
       [(''eels.background_subtraction3'', EELSFitBackground),
        (''eels.mapping3'', EELSMapBackgroundSubtractedSignal),
        (''eels.subtract_background'', EELSSubtractBackground)]"
  by (simp add: module_load_def Let_def schema_entity_def register_existing_types
        register_computation_types_def register_computation_type_def)

text \<open>
  C4.  Loading the module makes exactly three registrations with the computation-type
  registry of the host, in this order: \<open>eels.background_subtraction3\<close> for
  \<open>EELSFitBackground\<close>, \<open>eels.mapping3\<close> for \<open>EELSMapBackgroundSubtractedSignal\<close> and
  \<open>eels.subtract_background\<close> for \<open>EELSSubtractBackground\<close>; afterwards the host finds
  these classes under these identifiers, and each class has an \<open>execute\<close> and a
  \<open>commit\<close> method.  This holds for every load, also one that a later statement of the
  module ends with an exception.
\<close>

theorem module_load_registers_three_handlers:
  "computation_types (fst (module_load e h)) =
     computation_types h @
       [(''eels.background_subtraction3'', EELSFitBackground),
        (''eels.mapping3'', EELSMapBackgroundSubtractedSignal),
        (''eels.subtract_background'', EELSSubtractBackground)]
   \<and> computation_type (fst (module_load e h)) ''eels.background_subtraction3''
       = Some EELSFitBackground
   \<and> computation_type (fst (module_load e h)) ''eels.mapping3''
       = Some EELSMapBackgroundSubtractedSignal
   \<and> computation_type (fst (module_load e h)) ''eels.subtract_background''
       = Some EELSSubtractBackground
   \<and> (\<forall>cls. ''execute'' \<in> set (class_methods cls) \<and> ''commit'' \<in> set (class_methods cls))"
proof -
  have "\<forall>cls. ''execute'' \<in> set (class_methods cls) \<and> ''commit'' \<in> set (class_methods cls)"
  proof
    fix cls show "''execute'' \<in> set (class_methods cls) \<and> ''commit'' \<in> set (class_methods cls)"
      by (cases cls) simp_all
  qed
  then show ?thesis
    by (simp add: module_load_types computation_type_def)
qed

subsection \<open>The menu\<close>

text \<open>
  C7.  \<open>build_menus\<close> appends exactly seven items to the processing menu of the document
  controller, in this order and each with the action of its processing function: Subtract
  Linear Background, Subtract Background Signal, Extract Signal, Show Color Channels, Filter
  Channel, Elemental Map (Si K) and Elemental Map (Ga L), the titles passed through
  \<open>gettext\<close>.  Importing the module registers \<open>build_menus\<close> as a menu handler when the
  host imports succeed and an application is running; when the imports fail or there is no
  application, nothing is registered.
\<close>

theorem build_menus_registers_seven_items:
  "processing_menu (build_menus tr dc) =
     processing_menu dc @
       [(tr ''Subtract Linear Background'', ProcessingSubtractLinearBackground),
        (tr ''Subtract Background Signal'', ProcessingSubtractBackgroundSignal),
        (tr ''Extract Signal'', ProcessingExtractSignal),
        (tr ''Show Color Channels'', ShowColorChannels),
        (tr ''Filter Channel'', FilterChannel),
        (tr ''Elemental Map (Si K)'', FilterElement (1700, 1800) (1839, 2039)),
        (tr ''Elemental Map (Ga L)'', FilterElement (1100, 1200) (1220, 1420))]
   \<and> length (processing_menu (build_menus tr dc)) = length (processing_menu dc) + 7
   \<and> ui_module_load (Some (Some app)) = Some (Some (app\<lparr>menu_handlers := menu_handlers app @ [BuildMenus]\<rparr>))
   \<and> ui_module_load (Some None) = Some None
   \<and> ui_module_load None = None"
  by (simp add: build_menus_def add_menu_item_def ui_module_load_def register_menu_handler_def)

subsection \<open>add_background_subtraction_computation\<close>

lemma label_intervals_apply:
  "label_intervals e rs store r =
     (if r \<in> set rs
      then (store r)\<lparr>graphic_id := Some ''background'', label := Some (gettext e ''Background'')\<rparr>
      else store r)"
  by (induction rs arbitrary: store) auto

lemma add_background_subtraction_computation_world:
  "fst (add_background_subtraction_computation e w disp item intervals) =
     w\<lparr>data_items := data_items w @
          [\<lparr>uuid = next_uuid w, item_xdata = None\<rparr>, \<lparr>uuid = Suc (next_uuid w), item_xdata = None\<rparr>],
       next_uuid := Suc (Suc (next_uuid w)),
       data_structures := data_structures w @
          [\<lparr>structure_type = ''power_law_fit_background_model'',
            source = Some \<lparr>uuid = next_uuid w, item_xdata = None\<rparr>\<rparr>],
       computations := computations w @
          [\<lparr>processing_id = ''eels.background_subtraction3'',
            inputs = [(''eels_spectrum_data_item'', DataItemV item),
                      (''background_model'', StructureV (length (data_structures w))),
                      (''fit_interval_graphics'', GraphicsV intervals)],
            outputs = [(''background'', \<lparr>uuid = next_uuid w, item_xdata = None\<rparr>),
                       (''subtracted'', \<lparr>uuid = Suc (next_uuid w), item_xdata = None\<rparr>)]\<rparr>],
       graphics := label_intervals e intervals (graphics w)\<rparr>"
  by (simp add: add_background_subtraction_computation_def create_data_item_def
        create_computation_def Let_def)

text \<open>
  C6.  Every call of \<open>add_background_subtraction_computation\<close> appends to the document
  model a data structure of type \<open>power_law_fit_background_model\<close> and two new data
  items, and creates one computation \<open>eels.background_subtraction3\<close> whose inputs are the
  given data item, that data structure and the given interval graphics, and whose outputs
  \<open>background\<close> and \<open>subtracted\<close> are the two new items; every interval graphic passed
  in has its \<open>graphic_id\<close> set to \<open>background\<close>, and no other graphic is touched.
  \<open>subtract_background_from_signal\<close> does this, for the target display, the target data
  item and the selected interval graphics, when the window has a target display and a
  target data item and at least one selected graphic is an interval; otherwise it changes
  nothing.
\<close>

theorem add_background_subtraction_computation_wires:
  "data_structures (fst (add_background_subtraction_computation e w disp item intervals)) =
     data_structures w @
       [\<lparr>structure_type = ''power_law_fit_background_model'',
         source = Some \<lparr>uuid = next_uuid w, item_xdata = None\<rparr>\<rparr>]
   \<and> data_items (fst (add_background_subtraction_computation e w disp item intervals)) =
       data_items w @
         [\<lparr>uuid = next_uuid w, item_xdata = None\<rparr>, \<lparr>uuid = Suc (next_uuid w), item_xdata = None\<rparr>]
   \<and> computations (fst (add_background_subtraction_computation e w disp item intervals)) =
       computations w @
         [\<lparr>processing_id = ''eels.background_subtraction3'',
           inputs = [(''eels_spectrum_data_item'', DataItemV item),
                     (''background_model'', StructureV (length (data_structures w))),
                     (''fit_interval_graphics'', GraphicsV intervals)],
           outputs = [(''background'', \<lparr>uuid = next_uuid w, item_xdata = None\<rparr>),
                      (''subtracted'', \<lparr>uuid = Suc (next_uuid w), item_xdata = None\<rparr>)]\<rparr>]
   \<and> structure_type
        (data_structures (fst (add_background_subtraction_computation e w disp item intervals))
           ! length (data_structures w)) = ''power_law_fit_background_model''
   \<and> (\<forall>r \<in> set intervals.
         graphic_id (graphics (fst (add_background_subtraction_computation e w disp item intervals)) r)
           = Some ''background'')
   \<and> (\<forall>r. r \<notin> set intervals \<longrightarrow>
         graphics (fst (add_background_subtraction_computation e w disp item intervals)) r
           = graphics w r)
   \<and> (\<forall>d it. target_display w = Some d \<and> target_data_item w = Some it
          \<and> selected_intervals w d \<noteq> [] \<longrightarrow>
         subtract_background_from_signal e w =
           (fst (add_background_subtraction_computation e w d it (selected_intervals w d)))
             \<lparr>target_display :=
                Some (snd (add_background_subtraction_computation e w d it (selected_intervals w d)))\<rparr>)
   \<and> (target_display w = None \<or> target_data_item w = None
        \<or> (\<exists>d. target_display w = Some d \<and> selected_intervals w d = []) \<longrightarrow>
         subtract_background_from_signal e w = w)"
proof (intro conjI allI impI ballI)
  fix d it
  assume "target_display w = Some d \<and> target_data_item w = Some it \<and> selected_intervals w d \<noteq> []"
  then show "subtract_background_from_signal e w =
           (fst (add_background_subtraction_computation e w d it (selected_intervals w d)))
             \<lparr>target_display :=
                Some (snd (add_background_subtraction_computation e w d it (selected_intervals w d)))\<rparr>"
    by (simp add: subtract_background_from_signal_def selected_intervals_def Let_def
          split: prod.splits)
next
  assume "target_display w = None \<or> target_data_item w = None
        \<or> (\<exists>d. target_display w = Some d \<and> selected_intervals w d = [])"
  then show "subtract_background_from_signal e w = w"
    by (auto simp: subtract_background_from_signal_def selected_intervals_def Let_def
          split: option.splits)
qed (simp_all add: add_background_subtraction_computation_world label_intervals_apply)

theorem add_background_subtraction_computation_wires_witness:
  "target_display sample_world = Some sample_display
   \<and> target_data_item sample_world = Some spectrum_item
   \<and> selected_intervals sample_world sample_display = [0]
   \<and> (0::nat) \<in> set [0]
   \<and> graphic_id (graphics (subtract_background_from_signal (sample_env sample_registry) sample_world) 0)
       = Some ''background''
   \<and> (1::nat) \<notin> set [0]
   \<and> graphics (subtract_background_from_signal (sample_env sample_registry) sample_world) 1
       = rectangle_graphic
   \<and> computations (subtract_background_from_signal (sample_env sample_registry) sample_world) =
       [\<lparr>processing_id = ''eels.background_subtraction3'',
         inputs = [(''eels_spectrum_data_item'', DataItemV spectrum_item),
                   (''background_model'', StructureV 0),
                   (''fit_interval_graphics'', GraphicsV [0])],
         outputs = [(''background'', \<lparr>uuid = 3, item_xdata = None\<rparr>),
                    (''subtracted'', \<lparr>uuid = 4, item_xdata = None\<rparr>)]\<rparr>]
   \<and> data_structures (subtract_background_from_signal (sample_env sample_registry) sample_world) =
       [\<lparr>structure_type = ''power_law_fit_background_model'',
         source = Some \<lparr>uuid = 3, item_xdata = None\<rparr>\<rparr>]
   \<and> subtract_background_from_signal (sample_env sample_registry)
        (sample_world\<lparr>target_data_item := None\<rparr>) = sample_world\<lparr>target_data_item := None\<rparr>"
proof -
  have sel: "selected_intervals sample_world sample_display = [0]"
    by (simp add: selected_intervals_def sample_world_def sample_display_def
          sample_interval_graphic_def rectangle_graphic_def)
  have td: "target_display sample_world = Some sample_display"
    and ti: "target_data_item sample_world = Some spectrum_item"
    by (simp_all add: sample_world_def)
  note T = add_background_subtraction_computation_wires
             [where e = "sample_env sample_registry" and w = sample_world and disp = sample_display
                and item = spectrum_item and intervals = "[0]"]
  have run: "subtract_background_from_signal (sample_env sample_registry) sample_world =
      (fst (add_background_subtraction_computation (sample_env sample_registry) sample_world
              sample_display spectrum_item [0]))
        \<lparr>target_display := Some (snd (add_background_subtraction_computation
              (sample_env sample_registry) sample_world sample_display spectrum_item [0]))\<rparr>"
    using T [THEN conjunct2, THEN conjunct2, THEN conjunct2, THEN conjunct2, THEN conjunct2,
             THEN conjunct2, THEN conjunct1, rule_format, of sample_display spectrum_item]
      td ti sel by simp
  have none: "subtract_background_from_signal (sample_env sample_registry)
        (sample_world\<lparr>target_data_item := None\<rparr>) = sample_world\<lparr>target_data_item := None\<rparr>"
    using add_background_subtraction_computation_wires
             [where w = "sample_world\<lparr>target_data_item := None\<rparr>"
                and e = "sample_env sample_registry"]
    by simp
  from T have
    "graphic_id (graphics (fst (add_background_subtraction_computation (sample_env sample_registry)
        sample_world sample_display spectrum_item [0])) 0) = Some ''background''"
    "graphics (fst (add_background_subtraction_computation (sample_env sample_registry)
        sample_world sample_display spectrum_item [0])) 1 = graphics sample_world 1"
    "computations (fst (add_background_subtraction_computation (sample_env sample_registry)
        sample_world sample_display spectrum_item [0])) = computations sample_world @
         [\<lparr>processing_id = ''eels.background_subtraction3'',
           inputs = [(''eels_spectrum_data_item'', DataItemV spectrum_item),
                     (''background_model'', StructureV (length (data_structures sample_world))),
                     (''fit_interval_graphics'', GraphicsV [0])],
           outputs = [(''background'', \<lparr>uuid = next_uuid sample_world, item_xdata = None\<rparr>),
                      (''subtracted'', \<lparr>uuid = Suc (next_uuid sample_world), item_xdata = None\<rparr>)]\<rparr>]"
    "data_structures (fst (add_background_subtraction_computation (sample_env sample_registry)
        sample_world sample_display spectrum_item [0])) = data_structures sample_world @
       [\<lparr>structure_type = ''power_law_fit_background_model'',
         source = Some \<lparr>uuid = next_uuid sample_world, item_xdata = None\<rparr>\<rparr>]"
    by simp_all
  with td ti sel none show ?thesis
    unfolding run by (simp add: sample_world_def)
qed

subsection \<open>The menu action subtract_background\<close>

lemma find_first_split:
  "find P xs = Some c \<longleftrightarrow>
     (\<exists>pre post. xs = pre @ c # post \<and> P c \<and> (\<forall>x\<in>set pre. \<not> P x))"
proof (induction xs)
  case Nil
  then show ?case by simp
next
  case (Cons x xs)
  show ?case
  proof (cases "P x")
    case True
    have "(\<exists>pre post. x # xs = pre @ c # post \<and> P c \<and> (\<forall>y\<in>set pre. \<not> P y)) \<longleftrightarrow> x = c"
    proof
      assume "\<exists>pre post. x # xs = pre @ c # post \<and> P c \<and> (\<forall>y\<in>set pre. \<not> P y)"
      then obtain pre post where s: "x # xs = pre @ c # post" and n: "\<forall>y\<in>set pre. \<not> P y"
        by blast
      show "x = c"
      proof (cases pre)
        case Nil
        with s show ?thesis by simp
      next
        case (Cons p ps)
        with s have "p = x" by simp
        with Cons n True show ?thesis by simp
      qed
    next
      assume "x = c"
      with True have "x # xs = [] @ c # xs \<and> P c \<and> (\<forall>y\<in>set []. \<not> P y)" by simp
      then show "\<exists>pre post. x # xs = pre @ c # post \<and> P c \<and> (\<forall>y\<in>set pre. \<not> P y)"
        by blast
    qed
    with True show ?thesis by auto
  next
    case False
    have "(\<exists>pre post. x # xs = pre @ c # post \<and> P c \<and> (\<forall>y\<in>set pre. \<not> P y))
          \<longleftrightarrow> (\<exists>pre post. xs = pre @ c # post \<and> P c \<and> (\<forall>y\<in>set pre. \<not> P y))"
    proof
      assume "\<exists>pre post. x # xs = pre @ c # post \<and> P c \<and> (\<forall>y\<in>set pre. \<not> P y)"
      then obtain pre post where s: "x # xs = pre @ c # post" and pc: "P c"
        and n: "\<forall>y\<in>set pre. \<not> P y" by blast
      show "\<exists>pre post. xs = pre @ c # post \<and> P c \<and> (\<forall>y\<in>set pre. \<not> P y)"
      proof (cases pre)
        case Nil
        with s pc False show ?thesis by simp
      next
        case (Cons p ps)
        with s n pc have "xs = ps @ c # post \<and> P c \<and> (\<forall>y\<in>set ps. \<not> P y)" by simp
        then show ?thesis by blast
      qed
    next
      assume "\<exists>pre post. xs = pre @ c # post \<and> P c \<and> (\<forall>y\<in>set pre. \<not> P y)"
      then obtain pre post where "xs = pre @ c # post" "P c" "\<forall>y\<in>set pre. \<not> P y" by blast
      with False have "x # xs = (x # pre) @ c # post \<and> P c \<and> (\<forall>y\<in>set (x # pre). \<not> P y)"
        by simp
      then show "\<exists>pre post. x # xs = pre @ c # post \<and> P c \<and> (\<forall>y\<in>set pre. \<not> P y)"
        by blast
    qed
    with False Cons.IH show ?thesis by simp
  qed
qed

lemma display_test_shows:
  "processing_id c = ''eels.background_subtraction3''
     \<and> display_has_spectrum_and_subtracted items c
   \<longleftrightarrow> shows_background_subtraction items c"
  by (auto simp: display_has_spectrum_and_subtracted_def shows_background_subtraction_def
      split: input_value.splits option.splits)

lemma subtract_background_loop_find:
  "subtract_background_loop e w items cs =
     (case find (shows_background_subtraction items) cs of
        None \<Rightarrow> Inr w
      | Some c \<Rightarrow> subtract_background_body e w c)"
proof (induction cs)
  case Nil
  then show ?case by simp
next
  case (Cons c cs)
  from display_test_shows [of c items] Cons show ?case
    by (cases "processing_id c = ''eels.background_subtraction3''") auto
qed

lemma subtract_background_action_find:
  "subtract_background_action e w =
     (case target_display w of
        None \<Rightarrow> Inr w
      | Some disp \<Rightarrow>
          (case find (shows_background_subtraction (display_data_items disp)) (computations w) of
             None \<Rightarrow> Inr w
           | Some c \<Rightarrow> subtract_background_body e w c))"
  by (simp add: subtract_background_action_def subtract_background_loop_find split: option.splits)

lemma body_creates:
  assumes "get_input c ''eels_spectrum_data_item'' = DataItemV d"
    and "get_input c ''fit_interval_graphics'' = GraphicsV gs"
    and "source_data_items w d = [src]" and "item_xdata src = Some sx"
    and "is_navigable sx" and "item_datum_dimension_count src = 1"
  shows "subtract_background_body e w c =
     Inr (w\<lparr>data_items := data_items w @
               [\<lparr>uuid = next_uuid w,
                 item_xdata = Some (new_data_and_metadata e
                    (zeros (navigation_dimension_shape sx)) None None)\<rparr>],
            next_uuid := Suc (next_uuid w),
            computations := computations w @
               [\<lparr>processing_id = ''eels.subtract_background'',
                 inputs = [(''spectrum_image_data_item'', DataItemV src),
                           (''fit_interval_graphics'', GraphicsV gs),
                           (''background_model'', get_input c ''background_model'')],
                 outputs = [(''subtracted'',
                    \<lparr>uuid = next_uuid w,
                     item_xdata = Some (new_data_and_metadata e
                        (zeros (navigation_dimension_shape sx)) None None)\<rparr>)]\<rparr>],
            displayed := displayed w @
               [\<lparr>uuid = next_uuid w,
                 item_xdata = Some (new_data_and_metadata e
                    (zeros (navigation_dimension_shape sx)) None None)\<rparr>]\<rparr>)"
  using assms
  by (simp add: subtract_background_body_def create_data_item_from_data_def
        create_computation_def Let_def)

lemma body_changes:
  assumes "computations (after_call w (subtract_background_body e w c)) \<noteq> computations w"
  shows "\<exists>d src sx gs. get_input c ''eels_spectrum_data_item'' = DataItemV d
           \<and> source_data_items w d = [src] \<and> item_xdata src = Some sx
           \<and> is_navigable sx \<and> item_datum_dimension_count src = 1
           \<and> get_input c ''fit_interval_graphics'' = GraphicsV gs"
  using assms
  by (auto simp: subtract_background_body_def after_call_def
      split: input_value.splits list.splits option.splits if_splits)


text \<open>
  A computation created by \<open>add_background_subtraction_computation\<close> has the three
  inputs the menu action reads, the fit interval graphics as a sequence.
\<close>

lemma created_fit_computation_inputs:
  "\<exists>c. computations (fst (add_background_subtraction_computation e w disp item intervals))
         = computations w @ [c]
       \<and> processing_id c = ''eels.background_subtraction3''
       \<and> get_input c ''eels_spectrum_data_item'' = DataItemV item
       \<and> get_input c ''fit_interval_graphics'' = GraphicsV intervals
       \<and> get_input c ''background_model'' = StructureV (length (data_structures w))"
  by (simp add: add_background_subtraction_computation_world get_input_def)

text \<open>
  C5 (as amended).  Call a computation of the document found when the window has a
  target display, the computation has the processing id \<open>eels.background_subtraction3\<close>,
  its \<open>eels_spectrum_data_item\<close> input and its \<open>subtracted\<close> output are both among the
  data items of that display, and no computation before it in document order passes this
  test.  The action creates a new computation exactly when there is a found computation
  whose spectrum data item has exactly one source data item, with xdata that is navigable
  and one datum dimension, and whose \<open>fit_interval_graphics\<close> input is a sequence of
  graphics.  It then creates one new data item holding zeros in the navigation shape of
  the source, creates one computation \<open>eels.subtract_background\<close> with the source item,
  the found computation's fit interval graphics and its background model as inputs and the
  new item as output \<open>subtracted\<close>, and displays the new item.  In every other case the
  document has the same computations after the action as before, whether the action
  returns or raises.
\<close>

theorem subtract_background_creates_iff:
  "(\<forall>disp pre c post d out src sx gs.
        target_display w = Some disp
        \<and> computations w = pre @ c # post
        \<and> (\<forall>c' \<in> set pre. \<not> shows_background_subtraction (display_data_items disp) c')
        \<and> processing_id c = ''eels.background_subtraction3''
        \<and> get_input c ''eels_spectrum_data_item'' = DataItemV d
        \<and> d \<in> set (display_data_items disp)
        \<and> get_output c ''subtracted'' = Some out
        \<and> out \<in> set (display_data_items disp)
        \<and> source_data_items w d = [src] \<and> item_xdata src = Some sx
        \<and> is_navigable sx \<and> item_datum_dimension_count src = 1
        \<and> get_input c ''fit_interval_graphics'' = GraphicsV gs \<longrightarrow>
        subtract_background_action e w =
          Inr (w\<lparr>data_items := data_items w @
                    [\<lparr>uuid = next_uuid w,
                      item_xdata = Some (new_data_and_metadata e
                         (zeros (navigation_dimension_shape sx)) None None)\<rparr>],
                 next_uuid := Suc (next_uuid w),
                 computations := computations w @
                    [\<lparr>processing_id = ''eels.subtract_background'',
                      inputs = [(''spectrum_image_data_item'', DataItemV src),
                                (''fit_interval_graphics'', GraphicsV gs),
                                (''background_model'', get_input c ''background_model'')],
                      outputs = [(''subtracted'',
                         \<lparr>uuid = next_uuid w,
                          item_xdata = Some (new_data_and_metadata e
                             (zeros (navigation_dimension_shape sx)) None None)\<rparr>)]\<rparr>],
                 displayed := displayed w @
                    [\<lparr>uuid = next_uuid w,
                      item_xdata = Some (new_data_and_metadata e
                         (zeros (navigation_dimension_shape sx)) None None)\<rparr>]\<rparr>))
   \<and> (computations (after_call w (subtract_background_action e w)) \<noteq> computations w \<longrightarrow>
        (\<exists>disp pre c post d out src sx gs.
           target_display w = Some disp
           \<and> computations w = pre @ c # post
           \<and> (\<forall>c' \<in> set pre. \<not> shows_background_subtraction (display_data_items disp) c')
           \<and> processing_id c = ''eels.background_subtraction3''
           \<and> get_input c ''eels_spectrum_data_item'' = DataItemV d
           \<and> d \<in> set (display_data_items disp)
           \<and> get_output c ''subtracted'' = Some out
           \<and> out \<in> set (display_data_items disp)
           \<and> source_data_items w d = [src] \<and> item_xdata src = Some sx
           \<and> is_navigable sx \<and> item_datum_dimension_count src = 1
           \<and> get_input c ''fit_interval_graphics'' = GraphicsV gs))
   \<and> (\<forall>items c. shows_background_subtraction items c \<longleftrightarrow>
          processing_id c = ''eels.background_subtraction3''
          \<and> (\<exists>d. get_input c ''eels_spectrum_data_item'' = DataItemV d \<and> d \<in> set items)
          \<and> (\<exists>out. get_output c ''subtracted'' = Some out \<and> out \<in> set items))"
proof (intro conjI allI impI)
  fix disp pre c post d out src sx gs
  assume a: "target_display w = Some disp
        \<and> computations w = pre @ c # post
        \<and> (\<forall>c' \<in> set pre. \<not> shows_background_subtraction (display_data_items disp) c')
        \<and> processing_id c = ''eels.background_subtraction3''
        \<and> get_input c ''eels_spectrum_data_item'' = DataItemV d
        \<and> d \<in> set (display_data_items disp)
        \<and> get_output c ''subtracted'' = Some out
        \<and> out \<in> set (display_data_items disp)
        \<and> source_data_items w d = [src] \<and> item_xdata src = Some sx
        \<and> is_navigable sx \<and> item_datum_dimension_count src = 1
        \<and> get_input c ''fit_interval_graphics'' = GraphicsV gs"
  then have sh: "shows_background_subtraction (display_data_items disp) c"
    by (auto simp: shows_background_subtraction_def)
  with sh a have "find (shows_background_subtraction (display_data_items disp)) (computations w)
      = Some c"
    unfolding find_first_split by blast
  moreover from a have f: "get_input c ''eels_spectrum_data_item'' = DataItemV d"
      "get_input c ''fit_interval_graphics'' = GraphicsV gs"
      "source_data_items w d = [src]" "item_xdata src = Some sx"
      "is_navigable sx" "item_datum_dimension_count src = 1"
    by blast+
  then have "subtract_background_body e w c =
     Inr (w\<lparr>data_items := data_items w @
               [\<lparr>uuid = next_uuid w,
                 item_xdata = Some (new_data_and_metadata e
                    (zeros (navigation_dimension_shape sx)) None None)\<rparr>],
            next_uuid := Suc (next_uuid w),
            computations := computations w @
               [\<lparr>processing_id = ''eels.subtract_background'',
                 inputs = [(''spectrum_image_data_item'', DataItemV src),
                           (''fit_interval_graphics'', GraphicsV gs),
                           (''background_model'', get_input c ''background_model'')],
                 outputs = [(''subtracted'',
                    \<lparr>uuid = next_uuid w,
                     item_xdata = Some (new_data_and_metadata e
                        (zeros (navigation_dimension_shape sx)) None None)\<rparr>)]\<rparr>],
            displayed := displayed w @
               [\<lparr>uuid = next_uuid w,
                 item_xdata = Some (new_data_and_metadata e
                    (zeros (navigation_dimension_shape sx)) None None)\<rparr>]\<rparr>)"
    by (rule body_creates)
  ultimately show "subtract_background_action e w =
          Inr (w\<lparr>data_items := data_items w @
                    [\<lparr>uuid = next_uuid w,
                      item_xdata = Some (new_data_and_metadata e
                         (zeros (navigation_dimension_shape sx)) None None)\<rparr>],
                 next_uuid := Suc (next_uuid w),
                 computations := computations w @
                    [\<lparr>processing_id = ''eels.subtract_background'',
                      inputs = [(''spectrum_image_data_item'', DataItemV src),
                                (''fit_interval_graphics'', GraphicsV gs),
                                (''background_model'', get_input c ''background_model'')],
                      outputs = [(''subtracted'',
                         \<lparr>uuid = next_uuid w,
                          item_xdata = Some (new_data_and_metadata e
                             (zeros (navigation_dimension_shape sx)) None None)\<rparr>)]\<rparr>],
                 displayed := displayed w @
                    [\<lparr>uuid = next_uuid w,
                      item_xdata = Some (new_data_and_metadata e
                         (zeros (navigation_dimension_shape sx)) None None)\<rparr>]\<rparr>)"
    using a by (simp add: subtract_background_action_find)
next
  assume ch: "computations (after_call w (subtract_background_action e w)) \<noteq> computations w"
  then obtain disp where disp: "target_display w = Some disp"
    by (cases "target_display w") (auto simp: subtract_background_action_find after_call_def)
  with ch obtain c where
    c: "find (shows_background_subtraction (display_data_items disp)) (computations w) = Some c"
    by (cases "find (shows_background_subtraction (display_data_items disp)) (computations w)")
       (auto simp: subtract_background_action_find after_call_def)
  with ch disp have "computations (after_call w (subtract_background_body e w c)) \<noteq> computations w"
    by (simp add: subtract_background_action_find)
  from body_changes [OF this] obtain d src sx gs where
    body: "get_input c ''eels_spectrum_data_item'' = DataItemV d"
      "source_data_items w d = [src]" "item_xdata src = Some sx"
      "is_navigable sx" "item_datum_dimension_count src = 1"
      "get_input c ''fit_interval_graphics'' = GraphicsV gs" by blast
  from c obtain pre post where split: "computations w = pre @ c # post"
    and sh: "shows_background_subtraction (display_data_items disp) c"
    and first: "\<forall>c' \<in> set pre. \<not> shows_background_subtraction (display_data_items disp) c'"
    unfolding find_first_split by blast
  from sh body(1) obtain out where
    "processing_id c = ''eels.background_subtraction3''"
    "d \<in> set (display_data_items disp)"
    "get_output c ''subtracted'' = Some out" "out \<in> set (display_data_items disp)"
    by (auto simp: shows_background_subtraction_def)
  with disp split first body
  show "\<exists>disp pre c post d out src sx gs.
           target_display w = Some disp
           \<and> computations w = pre @ c # post
           \<and> (\<forall>c' \<in> set pre. \<not> shows_background_subtraction (display_data_items disp) c')
           \<and> processing_id c = ''eels.background_subtraction3''
           \<and> get_input c ''eels_spectrum_data_item'' = DataItemV d
           \<and> d \<in> set (display_data_items disp)
           \<and> get_output c ''subtracted'' = Some out
           \<and> out \<in> set (display_data_items disp)
           \<and> source_data_items w d = [src] \<and> item_xdata src = Some sx
           \<and> is_navigable sx \<and> item_datum_dimension_count src = 1
           \<and> get_input c ''fit_interval_graphics'' = GraphicsV gs"
    by blast
next
  fix items c
  show "shows_background_subtraction items c \<longleftrightarrow>
          processing_id c = ''eels.background_subtraction3''
          \<and> (\<exists>d. get_input c ''eels_spectrum_data_item'' = DataItemV d \<and> d \<in> set items)
          \<and> (\<exists>out. get_output c ''subtracted'' = Some out \<and> out \<in> set items)"
    by (auto simp: shows_background_subtraction_def)
qed


lemma fitted_facts:
  "target_display fitted_world = Some fitted_display"
  "computations fitted_world = [] @ fit_computation_node # []"
  "processing_id fit_computation_node = ''eels.background_subtraction3''"
  "get_input fit_computation_node ''eels_spectrum_data_item'' = DataItemV spectrum_item"
  "spectrum_item \<in> set (display_data_items fitted_display)"
  "get_output fit_computation_node ''subtracted'' = Some subtracted_item"
  "subtracted_item \<in> set (display_data_items fitted_display)"
  "source_data_items fitted_world spectrum_item = [image_item]"
  "item_xdata image_item = Some sample_image"
  "is_navigable sample_image"
  "item_datum_dimension_count image_item = 1"
  "get_input fit_computation_node ''fit_interval_graphics'' = GraphicsV [0]"
  "get_input fit_computation_node ''background_model'' = StructureV 0"
  by (simp_all add: fitted_world_def fitted_display_def fit_computation_node_def get_input_def
        get_output_def spectrum_item_def image_item_def sample_image_def
        item_datum_dimension_count_def)

theorem subtract_background_creates_iff_witness:
  "target_display fitted_world = Some fitted_display
   \<and> computations fitted_world = [] @ fit_computation_node # []
   \<and> processing_id fit_computation_node = ''eels.background_subtraction3''
   \<and> get_input fit_computation_node ''eels_spectrum_data_item'' = DataItemV spectrum_item
   \<and> spectrum_item \<in> set (display_data_items fitted_display)
   \<and> get_output fit_computation_node ''subtracted'' = Some subtracted_item
   \<and> subtracted_item \<in> set (display_data_items fitted_display)
   \<and> source_data_items fitted_world spectrum_item = [image_item]
   \<and> item_xdata image_item = Some sample_image
   \<and> is_navigable sample_image \<and> item_datum_dimension_count image_item = 1
   \<and> get_input fit_computation_node ''fit_interval_graphics'' = GraphicsV [0]
   \<and> computations (after_call fitted_world
        (subtract_background_action (sample_env sample_registry) fitted_world)) =
       [fit_computation_node,
        \<lparr>processing_id = ''eels.subtract_background'',
         inputs = [(''spectrum_image_data_item'', DataItemV image_item),
                   (''fit_interval_graphics'', GraphicsV [0]),
                   (''background_model'', StructureV 0)],
         outputs = [(''subtracted'',
            \<lparr>uuid = 5,
             item_xdata = Some (sample_new_data_and_metadata
                \<lparr>shape = [3], elems = [Finite 0, Finite 0, Finite 0]\<rparr> None None)\<rparr>)]\<rparr>]
   \<and> target_display image_world = Some image_display
   \<and> computations image_world = [fit_computation_node]
   \<and> spectrum_item \<notin> set (display_data_items image_display)
   \<and> computations (after_call image_world
        (subtract_background_action (sample_env sample_registry) image_world))
       = [fit_computation_node]"
proof -
  note T = subtract_background_creates_iff [where e = "sample_env sample_registry"]
  have run: "subtract_background_action (sample_env sample_registry) fitted_world =
          Inr (fitted_world\<lparr>data_items := data_items fitted_world @
                    [\<lparr>uuid = next_uuid fitted_world,
                      item_xdata = Some (new_data_and_metadata (sample_env sample_registry)
                         (zeros (navigation_dimension_shape sample_image)) None None)\<rparr>],
                 next_uuid := Suc (next_uuid fitted_world),
                 computations := computations fitted_world @
                    [\<lparr>processing_id = ''eels.subtract_background'',
                      inputs = [(''spectrum_image_data_item'', DataItemV image_item),
                                (''fit_interval_graphics'', GraphicsV [0]),
                                (''background_model'',
                                   get_input fit_computation_node ''background_model'')],
                      outputs = [(''subtracted'',
                         \<lparr>uuid = next_uuid fitted_world,
                          item_xdata = Some (new_data_and_metadata (sample_env sample_registry)
                             (zeros (navigation_dimension_shape sample_image)) None None)\<rparr>)]\<rparr>],
                 displayed := displayed fitted_world @
                    [\<lparr>uuid = next_uuid fitted_world,
                      item_xdata = Some (new_data_and_metadata (sample_env sample_registry)
                         (zeros (navigation_dimension_shape sample_image)) None None)\<rparr>]\<rparr>)"
    by (rule T [where w = fitted_world, THEN conjunct1, rule_format,
          of fitted_display "[]" fit_computation_node "[]" spectrum_item subtracted_item
             image_item sample_image "[0]"])
       (simp add: fitted_facts)
  have 1: "computations (after_call fitted_world
        (subtract_background_action (sample_env sample_registry) fitted_world)) =
       [fit_computation_node,
        \<lparr>processing_id = ''eels.subtract_background'',
         inputs = [(''spectrum_image_data_item'', DataItemV image_item),
                   (''fit_interval_graphics'', GraphicsV [0]),
                   (''background_model'', StructureV 0)],
         outputs = [(''subtracted'',
            \<lparr>uuid = 5,
             item_xdata = Some (sample_new_data_and_metadata
                \<lparr>shape = [3], elems = [Finite 0, Finite 0, Finite 0]\<rparr> None None)\<rparr>)]\<rparr>]"
    unfolding run
    by (simp add: after_call_def fitted_facts(13))
       (simp add: fitted_world_def sample_env_def sample_image_def zeros_def eval_nat_numeral)
  have img: "target_display image_world = Some image_display"
    "computations image_world = [fit_computation_node]"
    by (simp_all add: image_world_def fitted_world_def)
  have notin: "spectrum_item \<notin> set (display_data_items image_display)"
    by (simp add: image_display_def spectrum_item_def image_item_def)
  have ncond: "\<not> (\<exists>disp pre c post d out src sx gs.
           target_display image_world = Some disp
           \<and> computations image_world = pre @ c # post
           \<and> (\<forall>c' \<in> set pre. \<not> shows_background_subtraction (display_data_items disp) c')
           \<and> processing_id c = ''eels.background_subtraction3''
           \<and> get_input c ''eels_spectrum_data_item'' = DataItemV d
           \<and> d \<in> set (display_data_items disp)
           \<and> get_output c ''subtracted'' = Some out
           \<and> out \<in> set (display_data_items disp)
           \<and> source_data_items image_world d = [src] \<and> item_xdata src = Some sx
           \<and> is_navigable sx \<and> item_datum_dimension_count src = 1
           \<and> get_input c ''fit_interval_graphics'' = GraphicsV gs)"
    using notin by (auto simp: img Cons_eq_append_conv fitted_facts(4))
  have "computations (after_call image_world
        (subtract_background_action (sample_env sample_registry) image_world))
       = computations image_world"
  proof (rule ccontr)
    assume "computations (after_call image_world
        (subtract_background_action (sample_env sample_registry) image_world))
       \<noteq> computations image_world"
    from T [where w = image_world, THEN conjunct2, THEN conjunct1, THEN mp, OF this] ncond
    show False by (rule notE [rotated])
  qed
  then have 2: "computations (after_call image_world
        (subtract_background_action (sample_env sample_registry) image_world))
       = [fit_computation_node]"
    by (simp add: img(2))
  from fitted_facts 1 img notin 2 show ?thesis by simp
qed

text \<open>
  A computation \<open>eels.background_subtraction3\<close> shown in the target display, with a
  spectrum that has one navigable source with one datum dimension, but without a
  \<open>fit_interval_graphics\<close> input: \<open>get_input\<close> returns \<open>None\<close>, iterating it raises
  \<open>TypeError\<close>, and no computation is created although the condition of the claim holds.
\<close>

theorem subtract_background_unwired_counterexample:
  "target_display unwired_world = Some fitted_display
   \<and> computations unwired_world = [unwired_computation_node]
   \<and> processing_id unwired_computation_node = ''eels.background_subtraction3''
   \<and> get_input unwired_computation_node ''eels_spectrum_data_item'' = DataItemV spectrum_item
   \<and> spectrum_item \<in> set (display_data_items fitted_display)
   \<and> get_output unwired_computation_node ''subtracted'' = Some subtracted_item
   \<and> subtracted_item \<in> set (display_data_items fitted_display)
   \<and> source_data_items unwired_world spectrum_item = [image_item]
   \<and> item_xdata image_item = Some sample_image
   \<and> is_navigable sample_image \<and> item_datum_dimension_count image_item = 1
   \<and> get_input unwired_computation_node ''fit_interval_graphics'' = NoneV
   \<and> subtract_background_action (sample_env sample_registry) unwired_world = Inl TypeError
   \<and> computations (after_call unwired_world
        (subtract_background_action (sample_env sample_registry) unwired_world))
       = [unwired_computation_node]"
proof -
  have facts: "target_display unwired_world = Some fitted_display"
    "computations unwired_world = [unwired_computation_node]"
    "processing_id unwired_computation_node = ''eels.background_subtraction3''"
    "get_input unwired_computation_node ''eels_spectrum_data_item'' = DataItemV spectrum_item"
    "get_output unwired_computation_node ''subtracted'' = Some subtracted_item"
    "source_data_items unwired_world spectrum_item = [image_item]"
    "get_input unwired_computation_node ''fit_interval_graphics'' = NoneV"
    by (simp_all add: unwired_world_def fitted_world_def unwired_computation_node_def
          get_input_def get_output_def spectrum_item_def)
  have test: "display_has_spectrum_and_subtracted (display_data_items fitted_display)
      unwired_computation_node"
    by (simp add: display_has_spectrum_and_subtracted_def facts fitted_display_def)
  have run: "subtract_background_action (sample_env sample_registry) unwired_world
      = Inl TypeError"
    by (simp add: subtract_background_action_def facts test subtract_background_body_def)
  from facts run fitted_facts show ?thesis
    by (simp add: after_call_def)
qed

subsection \<open>normalized_interval\<close>

text \<open>
  C8 (as amended).  For every pair of floats neither of which is NaN,
  \<open>normalized_interval\<close> returns the smaller and the larger of the two: each component is
  one of the inputs, the first is below both inputs and the second above both, the first
  is at most the second, swapping the inputs does not change the result, and applying the
  function to its own result returns that result.
\<close>

theorem normalized_interval_ordered:
  assumes "a \<noteq> NaN" and "b \<noteq> NaN"
  shows "fst (normalized_interval (a, b)) \<in> {a, b}
       \<and> snd (normalized_interval (a, b)) \<in> {a, b}
       \<and> float_le (fst (normalized_interval (a, b))) a
       \<and> float_le (fst (normalized_interval (a, b))) b
       \<and> float_le a (snd (normalized_interval (a, b)))
       \<and> float_le b (snd (normalized_interval (a, b)))
       \<and> float_le (fst (normalized_interval (a, b))) (snd (normalized_interval (a, b)))
       \<and> normalized_interval (a, b) = normalized_interval (b, a)
       \<and> normalized_interval (normalized_interval (a, b)) = normalized_interval (a, b)"
  using assms by (cases a; cases b) auto

theorem normalized_interval_ordered_witness:
  "Finite 3 \<noteq> NaN \<and> Finite 2 \<noteq> NaN
   \<and> normalized_interval (Finite 3, Finite 2) = (Finite 2, Finite 3)
   \<and> float_le (fst (normalized_interval (Finite 3, Finite 2)))
               (snd (normalized_interval (Finite 3, Finite 2)))
   \<and> normalized_interval (Finite 3, Finite 2) = normalized_interval (Finite 2, Finite 3)"
  using normalized_interval_ordered [of "Finite 3" "Finite 2"] by simp

text \<open>
  With a NaN endpoint the claim as written fails: \<open>(nan, 1.0)\<close> is mapped to
  \<open>(nan, nan)\<close>, whose first component is not at most its second, while the swapped pair
  \<open>(1.0, nan)\<close> is mapped to \<open>(1.0, 1.0)\<close>.
\<close>

theorem normalized_interval_nan_counterexample:
  "normalized_interval (NaN, Finite 1) = (NaN, NaN)
   \<and> \<not> float_le (fst (normalized_interval (NaN, Finite 1)))
                 (snd (normalized_interval (NaN, Finite 1)))
   \<and> normalized_interval (Finite 1, NaN) = (Finite 1, Finite 1)
   \<and> normalized_interval (NaN, Finite 1) \<noteq> normalized_interval (Finite 1, NaN)"
  by simp

end
